theory Spec2Isabelle
  imports Main
begin

section \<open>Data model of main.go\<close>

text \<open>
  Go strings are byte sequences; \<open>string\<close> (a list of 8-bit characters) models them
  byte for byte. The struct \<open>tickerResponse\<close> has eleven string fields.
\<close>

record tickerResponse =
  ID :: string
  Name :: string
  Symbol :: string
  Rank :: string
  PriceUSD :: string
  PriceBTC :: string
  MarketCap :: string
  Change1H :: string
  Change24H :: string
  Change7D :: string
  LastUpdated :: string

text \<open>The zero value \<open>var nullTicker tickerResponse\<close>: every field the empty string.\<close>

definition nullTicker :: tickerResponse where
  "nullTicker = \<lparr>ID = [], Name = [], Symbol = [], Rank = [], PriceUSD = [], PriceBTC = [],
     MarketCap = [], Change1H = [], Change24H = [], Change7D = [], LastUpdated = []\<rparr>"

text \<open>
  A \<open>time.Time\<close> is modelled as an integer count of nanoseconds since the zero time
  (January 1 of year 1, UTC), so that the zero value of the type is \<open>0\<close>. A
  \<open>time.Duration\<close> is a signed 64-bit count of nanoseconds.
\<close>

type_synonym time = int
type_synonym duration = int

text \<open>The package-level variables: the snapshot and the per-channel time stamps.\<close>

record state =
  tickers :: "tickerResponse list"
  lastMessages :: "string \<rightharpoonup> time"

definition rateLimit :: duration where
  "rateLimit = 1000000000 * 30"

definition channels :: "string list" where
  "channels = [''322882023825997845'', ''229807580367683584'']"

definition tickerEndpoint :: string where
  "tickerEndpoint = ''https://api.coinmarketcap.com/v1/ticker/''"

section \<open>Library functions the program calls\<close>

subsection \<open>strings.EqualFold\<close>

text \<open>
  \<open>strings.EqualFold\<close> walks both strings byte by byte while both bytes are ASCII:
  equal bytes match, and an upper-case letter matches its lower-case form. When a byte
  of either string is \<open>\<ge> utf8.RuneSelf\<close> (128) it switches to rune-wise comparison
  under Unicode simple folding of the two remaining suffixes; that part rests on the
  Unicode tables of the standard library and is the parameter \<open>uni\<close>.
\<close>

definition asciiFoldEq :: "char \<Rightarrow> char \<Rightarrow> bool" where
  "asciiFoldEq s t =
     (let sr = (of_char s :: nat); tr = (of_char t :: nat) in
      if tr = sr then True
      else
        (let lo = min sr tr; hi = max sr tr in
         65 \<le> lo \<and> lo \<le> 90 \<and> hi = lo + 32))"

fun EqualFold :: "(string \<Rightarrow> string \<Rightarrow> bool) \<Rightarrow> string \<Rightarrow> string \<Rightarrow> bool" where
  "EqualFold uni [] [] = True"
| "EqualFold uni (s # ss) (t # ts) =
     (if 128 \<le> (of_char s :: nat) \<or> 128 \<le> (of_char t :: nat) then uni (s # ss) (t # ts)
      else if asciiFoldEq s t then EqualFold uni ss ts
      else False)"
| "EqualFold uni [] (t # ts) = False"
| "EqualFold uni (s # ss) [] = False"

section \<open>findTicker\<close>

text \<open>
  The \<open>for ... range tickers\<close> loop of \<open>findTicker\<close>: the first element whose name
  or symbol folds equal to the query is returned with \<open>true\<close>; when the loop ends the
  zero ticker is returned with \<open>false\<close>.
\<close>

fun findTicker_loop ::
  "(string \<Rightarrow> string \<Rightarrow> bool) \<Rightarrow> tickerResponse list \<Rightarrow> string \<Rightarrow> tickerResponse \<times> bool" where
  "findTicker_loop uni [] t = (nullTicker, False)"
| "findTicker_loop uni (ticker # rest) t =
     (if EqualFold uni (Name ticker) t \<or> EqualFold uni (Symbol ticker) t
      then (ticker, True)
      else findTicker_loop uni rest t)"

definition findTicker ::
  "(string \<Rightarrow> string \<Rightarrow> bool) \<Rightarrow> state \<Rightarrow> string \<Rightarrow> tickerResponse \<times> bool" where
  "findTicker uni s t = findTicker_loop uni (tickers s) t"

section \<open>More library functions\<close>

subsection \<open>strings.Split\<close>

text \<open>
  \<open>strings.Split(s, sep)\<close> with a one-byte separator cuts \<open>s\<close> at every occurrence of
  that byte; the pieces may be empty, and a string without the separator is returned as
  the only piece.
\<close>

fun Split :: "string \<Rightarrow> char \<Rightarrow> string list" where
  "Split [] sep = [[]]"
| "Split (c # cs) sep =
     (if c = sep then [] # Split cs sep
      else (case Split cs sep of
              [] \<Rightarrow> [[c]]
            | w # ws \<Rightarrow> (c # w) # ws))"

subsection \<open>strconv.ParseInt(s, 10, 64)\<close>

text \<open>
  An optional sign followed by one or more decimal digits, and nothing else; the value
  has to fit a signed 64-bit integer. \<open>None\<close> stands for a non-nil error (syntax or
  range), the only thing the caller looks at.
\<close>

definition isDigit :: "char \<Rightarrow> bool" where
  "isDigit c = (48 \<le> (of_char c :: nat) \<and> (of_char c :: nat) \<le> 57)"

fun digitsValue :: "int \<Rightarrow> string \<Rightarrow> int" where
  "digitsValue acc [] = acc"
| "digitsValue acc (c # cs) = digitsValue (acc * 10 + (of_char c - 48)) cs"

definition ParseInt :: "string \<Rightarrow> int option" where
  "ParseInt s =
     (case s of
        [] \<Rightarrow> None
      | c # cs \<Rightarrow>
          (let neg = (c = CHR ''-'');
               s1 = (if c = CHR ''+'' \<or> c = CHR ''-'' then cs else s)
           in if s1 = [] then None
              else if list_ex (\<lambda>d. \<not> isDigit d) s1 then None
              else
                (let un = digitsValue 0 s1
                 in if \<not> neg \<and> 2 ^ 63 \<le> un then None
                    else if neg \<and> 2 ^ 63 < un then None
                    else Some (if neg then - un else un))))"

subsection \<open>Decimal formatting of a non-negative integer (the verb \<open>%d\<close>)\<close>

fun itoa :: "nat \<Rightarrow> string" where
  "itoa n =
     (if n < 10 then [char_of (48 + n)]
      else itoa (n div 10) @ [char_of (48 + n mod 10)])"

declare itoa.simps [simp del]

subsection \<open>time.Since\<close>

text \<open>
  \<open>time.Since(t)\<close> is \<open>time.Now().Sub(t)\<close>, and \<open>Sub\<close> saturates at the least and the
  greatest \<open>Duration\<close>.
\<close>

definition maxDuration :: duration where
  "maxDuration = 2 ^ 63 - 1"

definition minDuration :: duration where
  "minDuration = - (2 ^ 63)"

definition Sub :: "time \<Rightarrow> time \<Rightarrow> duration" where
  "Sub t u =
     (let d = t - u
      in if maxDuration < d then maxDuration
         else if d < minDuration then minDuration
         else d)"

definition Since :: "time \<Rightarrow> time \<Rightarrow> duration" where
  "Since now t = Sub now t"

subsection \<open>Functions taken as parameters\<close>

text \<open>
  What the program calls and this development does not define: the Unicode part of
  \<open>strings.EqualFold\<close>, \<open>strconv.ParseFloat(s, 64)\<close> (with \<open>None\<close> for an error),
  the verb \<open>%.2f\<close> of \<open>fmt.Sprintf\<close> on the parsed float, and \<open>humanize.Comma\<close>.
  The type \<open>'f\<close> stands for \<open>float64\<close>.
\<close>

record 'f lib =
  foldUnicode :: "string \<Rightarrow> string \<Rightarrow> bool"
  ParseFloat :: "string \<Rightarrow> 'f option"
  FormatFloat2 :: "'f \<Rightarrow> string"
  Comma :: "int \<Rightarrow> string"

section \<open>The outside world\<close>

text \<open>
  The answer to an \<open>http.Get\<close>: a transport error with its message, or a response with
  its status code and what \<open>json.NewDecoder(resp.Body).Decode(&t)\<close> gives on its body
  (\<open>Inl\<close> the decoder's error, \<open>Inr\<close> the decoded slice).
\<close>

datatype http_result =
    TransportError string
  | Response nat "string + tickerResponse list"

record MessageEmbedField =
  FieldName :: string
  FieldValue :: string
  FieldInline :: bool

record MessageEmbed =
  Title :: string
  URL :: string
  AuthorName :: string
  AuthorIconURL :: string
  Fields :: "MessageEmbedField list"

text \<open>The two fields of \<open>discordgo.MessageCreate\<close> the handler reads.\<close>

record MessageCreate =
  ChannelID :: string
  Content :: string

text \<open>
  What one run of the handler observes of its surroundings: the clock reading taken by
  \<open>time.Since\<close>, the clock reading taken when the time stamp is stored, the answer of
  the HTTP server to a URL, and the error (if any) of \<open>ChannelMessageSendEmbed\<close>.
\<close>

record world =
  nowCheck :: time
  nowRecord :: time
  httpGet :: "string \<Rightarrow> http_result"
  sendEmbed :: "string \<Rightarrow> MessageEmbed \<Rightarrow> string option"

text \<open>
  The visible actions of the program, in the order they happen. A \<open>Log\<close> carries the
  message without the logger's prefix and line end; \<open>SetLastMessage\<close> marks the
  assignment \<open>lastMessages[c] = time.Now()\<close>.
\<close>

datatype effect =
    Log string
  | Get string
  | SendEmbed string MessageEmbed
  | SetLastMessage string time

section \<open>The program\<close>

subsection \<open>init\<close>

text \<open>
  \<open>init\<close> stores a fresh clock reading for every channel of the allow-list;
  \<open>clock i\<close> is the reading of the \<open>i\<close>-th call of \<open>time.Now\<close>.
\<close>

fun init_loop :: "string list \<Rightarrow> (nat \<Rightarrow> time) \<Rightarrow> nat \<Rightarrow> (string \<rightharpoonup> time) \<Rightarrow> (string \<rightharpoonup> time)" where
  "init_loop [] clock i m = m"
| "init_loop (c # cs) clock i m = init_loop cs clock (Suc i) (m(c \<mapsto> clock i))"

definition init :: "(nat \<Rightarrow> time) \<Rightarrow> state" where
  "init clock = \<lparr>tickers = [], lastMessages = init_loop channels clock 0 Map.empty\<rparr>"

subsection \<open>loadTickers\<close>

text \<open>
  \<open>log.Fatalln\<close> and \<open>log.Fatalf\<close> write the message and call \<open>os.Exit(1)\<close>: the
  result \<open>Inl 1\<close> is the end of the process with that status, \<open>Inr\<close> the state the
  program goes on with.
\<close>

definition tickerListEndpoint :: string where
  "tickerListEndpoint = ''https://api.coinmarketcap.com/v1/ticker/?limit=0''"

definition loadTickers :: "(string \<Rightarrow> http_result) \<Rightarrow> state \<Rightarrow> effect list \<times> (nat + state)" where
  "loadTickers http s =
     (case http tickerListEndpoint of
        TransportError err \<Rightarrow> ([Get tickerListEndpoint, Log err], Inl 1)
      | Response code body \<Rightarrow>
          if code \<noteq> 200
          then ([Get tickerListEndpoint, Log (''Tickers endpoint returned '' @ itoa code)], Inl 1)
          else
            (case body of
               Inl err \<Rightarrow> ([Get tickerListEndpoint, Log err], Inl 1)
             | Inr t \<Rightarrow>
                 if 0 < length t
                 then ([Get tickerListEndpoint, Log (''Loaded '' @ itoa (length t) @ '' tickers'')],
                       Inr (s\<lparr>tickers := t\<rparr>))
                 else ([Get tickerListEndpoint], Inr s)))"

subsection \<open>getTicker\<close>

definition getTicker :: "(string \<Rightarrow> http_result) \<Rightarrow> string \<Rightarrow> effect list \<times> (string + tickerResponse)" where
  "getTicker http ident =
     (let url = tickerEndpoint @ ident in
      case http url of
        TransportError err \<Rightarrow> ([Get url, Log err], Inl err)
      | Response code body \<Rightarrow>
          if code \<noteq> 200
          then ([Get url, Log (''Ticker endpoint returned '' @ itoa code)], Inl ''Bad status code'')
          else
            (case body of
               Inl err \<Rightarrow> ([Get url, Log err], Inl err)
             | Inr t \<Rightarrow>
                 if length t \<noteq> 1 then ([Get url], Inl ''Bad response'')
                 else ([Get url], Inr (t ! 0))))"

subsection \<open>isInSlice\<close>

fun isInSlice :: "string \<Rightarrow> string list \<Rightarrow> bool" where
  "isInSlice s [] = False"
| "isInSlice s (str # slice) = (if str = s then True else isInSlice s slice)"

subsection \<open>makeEmbed\<close>

definition makeEmbed :: "'f lib \<Rightarrow> tickerResponse \<Rightarrow> MessageEmbed" where
  "makeEmbed lib t =
     (let fields0 = [];
          fields1 = fields0 @
            [\<lparr>FieldName = ''Coin Market Cap Rank'', FieldValue = ''#'' @ Rank t,
              FieldInline = False\<rparr>];
          fields2 = fields1 @
            [\<lparr>FieldName = ''Price USD'', FieldValue = ''$'' @ PriceUSD t, FieldInline = True\<rparr>];
          fields3 = fields2 @
            [\<lparr>FieldName = ''Price BTC'', FieldValue = PriceBTC t @ '' BTC'', FieldInline = True\<rparr>];
          fields4 =
            (case ParseInt (LastUpdated t) of
               Some parsedCap \<Rightarrow> fields3 @
                 [\<lparr>FieldName = ''Market Cap'', FieldValue = ''$'' @ Comma lib parsedCap,
                   FieldInline = False\<rparr>]
             | None \<Rightarrow> fields3);
          fields5 =
            (case ParseFloat lib (Change1H t) of
               Some parsed1H \<Rightarrow> fields4 @
                 [\<lparr>FieldName = ''Percent Change 1 hour'',
                   FieldValue = FormatFloat2 lib parsed1H @ ''%'', FieldInline = True\<rparr>]
             | None \<Rightarrow> fields4);
          fields6 =
            (case ParseFloat lib (Change24H t) of
               Some parsed24H \<Rightarrow> fields5 @
                 [\<lparr>FieldName = ''Percent Change 1 hour'',
                   FieldValue = FormatFloat2 lib parsed24H @ ''%'', FieldInline = True\<rparr>]
             | None \<Rightarrow> fields5);
          fields7 =
            (case ParseFloat lib (Change7D t) of
               Some parsed7D \<Rightarrow> fields6 @
                 [\<lparr>FieldName = ''Percent Change 1 hour'',
                   FieldValue = FormatFloat2 lib parsed7D @ ''%'', FieldInline = True\<rparr>]
             | None \<Rightarrow> fields6)
      in \<lparr>Title = ''Coin Market Cap'',
          URL = ''https://coinmarketcap.com/currencies/'' @ ID t,
          AuthorName = Name t @ '' ('' @ Symbol t @ '')'',
          AuthorIconURL =
            ''https://files.coinmarketcap.com/static/img/coins/32x32/'' @ ID t @ ''.png'',
          Fields = fields7\<rparr>)"

subsection \<open>sendTickerMessage\<close>

definition sendTickerMessage ::
  "'f lib \<Rightarrow> world \<Rightarrow> tickerResponse \<Rightarrow> MessageCreate \<Rightarrow> state \<Rightarrow> effect list \<times> state" where
  "sendTickerMessage lib w t m s =
     (let embed = makeEmbed lib t in
      ([SendEmbed (ChannelID m) embed]
         @ (case sendEmbed w (ChannelID m) embed of
              Some err \<Rightarrow> [Log ''error sending message'', Log err]
            | None \<Rightarrow> [])
         @ [SetLastMessage (ChannelID m) (nowRecord w)],
       s\<lparr>lastMessages := (lastMessages s)(ChannelID m \<mapsto> nowRecord w)\<rparr>))"

subsection \<open>messageHandler\<close>

text \<open>Reading a key the map does not hold gives the zero \<open>time.Time\<close>.\<close>

definition lookupTime :: "(string \<rightharpoonup> time) \<Rightarrow> string \<Rightarrow> time" where
  "lookupTime m k = (case m k of None \<Rightarrow> 0 | Some t \<Rightarrow> t)"

text \<open>The test \<open>time.Since(lastMessages[m.ChannelID]) < rateLimit\<close>.\<close>

definition rateLimited :: "state \<Rightarrow> string \<Rightarrow> time \<Rightarrow> bool" where
  "rateLimited s c now = (Since now (lookupTime (lastMessages s) c) < rateLimit)"

definition messageHandler ::
  "'f lib \<Rightarrow> world \<Rightarrow> MessageCreate \<Rightarrow> state \<Rightarrow> effect list \<times> state" where
  "messageHandler lib w m s =
     (if \<not> isInSlice (ChannelID m) channels then ([], s)
      else
        (let msg = Content m;
             msgSlice = Split msg CHR '' ''
         in if length msgSlice \<noteq> 2 then ([], s)
            else if msgSlice ! 0 \<noteq> ''!c'' \<and> msgSlice ! 0 \<noteq> ''!crypto'' then ([], s)
            else if rateLimited s (ChannelID m) (nowCheck w) then ([Log ''Rate limited''], s)
            else
              (case findTicker (foldUnicode lib) s (msgSlice ! 1) of
                 (ticker, found) \<Rightarrow>
                   if found
                   then
                     (case getTicker (httpGet w) (ID ticker) of
                        (effs, Inr ticker') \<Rightarrow>
                          (case sendTickerMessage lib w ticker' m s of
                             (effs', s') \<Rightarrow> (effs @ effs', s'))
                      | (effs, Inl err) \<Rightarrow> (effs, s))
                   else ([], s))))"

subsection \<open>The running process\<close>

text \<open>
  After start-up the process does two things: the timer goroutine of \<open>main\<close> calls
  \<open>loadTickers\<close>, and the gateway calls \<open>messageHandler\<close> for an incoming message.
  A process that has called \<open>os.Exit\<close> does nothing any more.
\<close>

datatype input =
    Tick "string \<Rightarrow> http_result"
  | Message world MessageCreate

datatype proc =
    Running state
  | Exited nat

fun step :: "'f lib \<Rightarrow> input \<Rightarrow> proc \<Rightarrow> effect list \<times> proc" where
  "step lib i (Exited n) = ([], Exited n)"
| "step lib (Tick http) (Running s) =
     (case loadTickers http s of
        (effs, Inl n) \<Rightarrow> (effs, Exited n)
      | (effs, Inr s') \<Rightarrow> (effs, Running s'))"
| "step lib (Message w m) (Running s) =
     (case messageHandler lib w m s of (effs, s') \<Rightarrow> (effs, Running s'))"

fun run :: "'f lib \<Rightarrow> input list \<Rightarrow> proc \<Rightarrow> effect list \<times> proc" where
  "run lib [] p = ([], p)"
| "run lib (i # is) p =
     (case step lib i p of
        (effs, p') \<Rightarrow> (case run lib is p' of (effs', p'') \<Rightarrow> (effs @ effs', p'')))"

section \<open>Notions of the specification\<close>

text \<open>
  The specification speaks of a name or symbol that matches the query
  case-insensitively, as an exact match. On ASCII strings that is equality after
  lower-casing every letter.
\<close>

definition asciiOnly :: "string \<Rightarrow> bool" where
  "asciiOnly s = list_all (\<lambda>c. (of_char c :: nat) < 128) s"

definition toLowerASCII :: "char \<Rightarrow> char" where
  "toLowerASCII c =
     (if 65 \<le> (of_char c :: nat) \<and> (of_char c :: nat) \<le> 90
      then char_of ((of_char c :: nat) + 32) else c)"

definition matchesQuery :: "(string \<Rightarrow> string \<Rightarrow> bool) \<Rightarrow> tickerResponse \<Rightarrow> string \<Rightarrow> bool" where
  "matchesQuery uni a q = (EqualFold uni (Name a) q \<or> EqualFold uni (Symbol a) q)"

text \<open>
  The specification's tokens of a message: the maximal runs of characters that are not
  white space (space, tab, line feed, vertical tab, form feed, carriage return).
\<close>

definition isSpace :: "char \<Rightarrow> bool" where
  "isSpace c = (c = CHR '' '' \<or> (9 \<le> (of_char c :: nat) \<and> (of_char c :: nat) \<le> 13))"

fun whitespaceTokens_from :: "string \<Rightarrow> string \<Rightarrow> string list" where
  "whitespaceTokens_from cur [] = (if cur = [] then [] else [cur])"
| "whitespaceTokens_from cur (c # cs) =
     (if isSpace c then (if cur = [] then [] else [cur]) @ whitespaceTokens_from [] cs
      else whitespaceTokens_from (cur @ [c]) cs)"

definition whitespaceTokens :: "string \<Rightarrow> string list" where
  "whitespaceTokens s = whitespaceTokens_from [] s"

text \<open>
  The specification's success status: HTTP counts the status codes 200 to 299 as
  success.
\<close>

definition successStatus :: "nat \<Rightarrow> bool" where
  "successStatus code = (200 \<le> code \<and> code < 300)"

text \<open>
  Resolution, in the specification's sense: Identify (\<open>findTicker\<close> on the snapshot)
  followed by Fetch-fresh (\<open>getTicker\<close> on the identified asset's id), as the handler
  chains them.
\<close>

definition resolve ::
  "(string \<Rightarrow> string \<Rightarrow> bool) \<Rightarrow> (string \<Rightarrow> http_result) \<Rightarrow> state \<Rightarrow> string \<Rightarrow> tickerResponse option" where
  "resolve uni http s q =
     (case findTicker uni s q of
        (ticker, found) \<Rightarrow>
          if found
          then (case snd (getTicker http (ID ticker)) of
                  Inr fresh \<Rightarrow> Some fresh
                | Inl err \<Rightarrow> None)
          else None)"

text \<open>
  The three filters of the handler that look at the event alone: the channel is on the
  allow-list, the content splits into two pieces at the space character, and the first
  piece is one of the two command spellings.
\<close>

definition passesFilters :: "MessageCreate \<Rightarrow> bool" where
  "passesFilters m =
     (isInSlice (ChannelID m) channels \<and>
      length (Split (Content m) CHR '' '') = 2 \<and>
      (Split (Content m) CHR '' '' ! 0 = ''!c'' \<or> Split (Content m) CHR '' '' ! 0 = ''!crypto''))"

text \<open>A send, and a stored time stamp, among the actions of a run.\<close>

fun isSend :: "effect \<Rightarrow> bool" where
  "isSend (SendEmbed c e) = True"
| "isSend (Log x) = False"
| "isSend (Get u) = False"
| "isSend (SetLastMessage c t) = False"

fun isRecord :: "effect \<Rightarrow> bool" where
  "isRecord (SetLastMessage c t) = True"
| "isRecord (Log x) = False"
| "isRecord (Get u) = False"
| "isRecord (SendEmbed c e) = False"


text \<open>
  The field a percent change is rendered to when its source string parses: the label,
  the value with two decimals and a percent sign, inline.
\<close>

definition percentField :: "'f lib \<Rightarrow> string \<Rightarrow> MessageEmbedField list" where
  "percentField lib src =
     (case ParseFloat lib src of
        Some x \<Rightarrow>
          [\<lparr>FieldName = ''Percent Change 1 hour'', FieldValue = FormatFloat2 lib x @ ''%'',
            FieldInline = True\<rparr>]
      | None \<Rightarrow> [])"

section \<open>Concrete inputs\<close>

text \<open>
  An instance of the library parameters for ASCII inputs whose numbers are integers:
  the Unicode part of the folding is never reached, an integer literal parses to the
  integer, \<open>%.2f\<close> prints it with two zero decimals, and \<open>Comma\<close> groups the digits
  in threes.
\<close>

fun commaNat :: "nat \<Rightarrow> string" where
  "commaNat n =
     (if n < 1000 then itoa n
      else commaNat (n div 1000) @ '','' @
        (let r = n mod 1000
         in if r < 10 then ''00'' @ itoa r else if r < 100 then ''0'' @ itoa r else itoa r))"

declare commaNat.simps [simp del]

definition intLib :: "int lib" where
  "intLib =
     \<lparr>foldUnicode = (\<lambda>a b. False),
      ParseFloat = ParseInt,
      FormatFloat2 = (\<lambda>i. (if i < 0 then ''-'' else []) @ itoa (nat \<bar>i\<bar>) @ ''.00''),
      Comma = (\<lambda>i. (if i < 0 then ''-'' else []) @ commaNat (nat \<bar>i\<bar>))\<rparr>"

definition bitcoin :: tickerResponse where
  "bitcoin = nullTicker\<lparr>ID := ''bitcoin'', Name := ''Bitcoin'', Symbol := ''BTC''\<rparr>"

definition ethereum :: tickerResponse where
  "ethereum = nullTicker\<lparr>ID := ''ethereum'', Name := ''Ethereum'', Symbol := ''ETH''\<rparr>"

definition bitcoinFresh :: tickerResponse where
  "bitcoinFresh =
     \<lparr>ID = ''bitcoin'', Name = ''Bitcoin'', Symbol = ''BTC'', Rank = ''1'',
      PriceUSD = ''50000'', PriceBTC = ''1'', MarketCap = ''950000000000'',
      Change1H = ''1'', Change24H = ''2'', Change7D = ''-3'', LastUpdated = ''1513293892''\<rparr>"

text \<open>A state whose snapshot is Ethereum, then Bitcoin, with no time stamp stored.\<close>

definition twoAssets :: state where
  "twoAssets = \<lparr>tickers = [ethereum, bitcoin], lastMessages = Map.empty\<rparr>"

text \<open>
  A server that answers the single-asset request for \<open>bitcoin\<close> with one record and
  the list request with the two assets, and anything else with status 404.
\<close>

definition goodServer :: "string \<Rightarrow> http_result" where
  "goodServer url =
     (if url = tickerEndpoint @ ''bitcoin'' then Response 200 (Inr [bitcoinFresh])
      else if url = tickerListEndpoint then Response 200 (Inr [ethereum, bitcoin])
      else Response 404 (Inl ''EOF''))"

definition downServer :: "string \<Rightarrow> http_result" where
  "downServer url = TransportError ''connection refused''"

definition emptyServer :: "string \<Rightarrow> http_result" where
  "emptyServer url = Response 200 (Inr [])"

text \<open>A server that answers every request with status 201 and one record.\<close>

definition createdServer :: "string \<Rightarrow> http_result" where
  "createdServer url = Response 201 (Inr [bitcoinFresh])"

definition firstChannel :: string where
  "firstChannel = ''322882023825997845''"

text \<open>A run one hundred seconds after the zero time, with a send that succeeds.\<close>

definition calmWorld :: world where
  "calmWorld =
     \<lparr>nowCheck = 100000000000, nowRecord = 100000000001, httpGet = goodServer,
      sendEmbed = (\<lambda>c e. None)\<rparr>"

text \<open>The two-asset state after a response served on the first channel at 100 s.\<close>

definition stampedState :: state where
  "stampedState = twoAssets\<lparr>lastMessages := [firstChannel \<mapsto> 100000000000]\<rparr>"

definition btcCommand :: MessageCreate where
  "btcCommand = \<lparr>ChannelID = firstChannel, Content = ''!c BTC''\<rparr>"

text \<open>
  A run two hundred seconds after the zero time, the same run with a send that fails,
  and the command written with a tab in place of the space.
\<close>

definition lateWorld :: world where
  "lateWorld = calmWorld\<lparr>nowCheck := 200000000000, nowRecord := 200000000001\<rparr>"

definition brokenSendWorld :: world where
  "brokenSendWorld = lateWorld\<lparr>sendEmbed := (\<lambda>c e. Some ''HTTP 403 Forbidden'')\<rparr>"

definition tabCommand :: MessageCreate where
  "tabCommand =
     \<lparr>ChannelID = firstChannel,
      Content = [CHR ''!'', CHR ''c'', CHR 0x09, CHR ''B'', CHR ''T'', CHR ''C'']\<rparr>"

text \<open>
  A process started one second after the zero time (every reading of \<open>init\<close> is that
  instant) with the two-asset snapshot loaded, and a run five seconds after the start.
\<close>

definition startState :: state where
  "startState = (init (\<lambda>i. 1000000000))\<lparr>tickers := [ethereum, bitcoin]\<rparr>"

definition earlyWorld :: world where
  "earlyWorld = calmWorld\<lparr>nowCheck := 6000000000, nowRecord := 6000000001\<rparr>"

section \<open>Auxiliary lemmas\<close>

lemma asciiFoldEq_lower:
  "(of_char s :: nat) < 128 \<Longrightarrow> (of_char t :: nat) < 128 \<Longrightarrow>
   asciiFoldEq s t = (toLowerASCII s = toLowerASCII t)"
  unfolding asciiFoldEq_def toLowerASCII_def Let_def
  by (auto simp: of_char_eq_iff [where ?'a = nat, symmetric] min_def max_def simp del: of_char_eq_iff)

lemma EqualFold_ascii:
  "asciiOnly s \<Longrightarrow> asciiOnly t \<Longrightarrow>
   EqualFold uni s t = (map toLowerASCII s = map toLowerASCII t)"
proof (induction uni s t rule: EqualFold.induct)
  case (2 uni s ss t ts)
  then show ?case by (simp add: asciiOnly_def asciiFoldEq_lower)
qed (simp_all add: asciiOnly_def)

lemma findTicker_loop_first:
  "i < length ts \<Longrightarrow> matchesQuery uni (ts ! i) q \<Longrightarrow> (\<forall>j<i. \<not> matchesQuery uni (ts ! j) q) \<Longrightarrow>
   findTicker_loop uni ts q = (ts ! i, True)"
proof (induction ts arbitrary: i)
  case Nil then show ?case by simp
next
  case (Cons a ts)
  show ?case
  proof (cases i)
    case 0
    with Cons.prems show ?thesis by (simp add: matchesQuery_def)
  next
    case (Suc k)
    with Cons.prems have "\<not> matchesQuery uni a q" by auto
    moreover from Suc Cons.prems have "findTicker_loop uni ts q = (ts ! k, True)"
      by (intro Cons.IH) auto
    ultimately show ?thesis using Suc by (simp add: matchesQuery_def)
  qed
qed

lemma findTicker_loop_none:
  "(\<forall>a\<in>set ts. \<not> matchesQuery uni a q) \<Longrightarrow> findTicker_loop uni ts q = (nullTicker, False)"
  by (induction ts) (simp_all add: matchesQuery_def)

lemma bitcoin_fields: "Name bitcoin = ''Bitcoin''" "Symbol bitcoin = ''BTC''" "ID bitcoin = ''bitcoin''"
  by (simp_all add: bitcoin_def nullTicker_def)

lemma ethereum_fields: "Name ethereum = ''Ethereum''" "Symbol ethereum = ''ETH''" "ID ethereum = ''ethereum''"
  by (simp_all add: ethereum_def nullTicker_def)

section \<open>Claims\<close>

subsection \<open>C1: Identify returns the first case-insensitive match\<close>

text \<open>
  Claim C1. For every query \<open>q\<close> and every snapshot, \<open>findTicker\<close> scans the snapshot
  in order and returns the first asset whose name or symbol equals \<open>q\<close> under
  \<open>strings.EqualFold\<close>; when no asset matches it returns the zero ticker and \<open>false\<close>
  (NotFound). On ASCII strings \<open>EqualFold\<close> is equality after lower-casing, hence an
  exact match and not a substring match. For an asset named \<open>Bitcoin\<close> with symbol
  \<open>BTC\<close> the queries \<open>bitcoin\<close>, \<open>BTC\<close> and \<open>btc\<close> resolve to it and \<open>bit\<close> does not
  resolve.
\<close>

theorem findTicker_first_case_insensitive_match:
  "(\<forall>i. i < length (tickers s) \<and> matchesQuery uni (tickers s ! i) q \<and>
        (\<forall>j<i. \<not> matchesQuery uni (tickers s ! j) q)
        \<longrightarrow> findTicker uni s q = (tickers s ! i, True))
   \<and> ((\<forall>a\<in>set (tickers s). \<not> matchesQuery uni a q)
        \<longrightarrow> findTicker uni s q = (nullTicker, False))
   \<and> (asciiOnly x \<and> asciiOnly q
        \<longrightarrow> EqualFold uni x q = (map toLowerASCII x = map toLowerASCII q))
   \<and> (Name a = ''Bitcoin'' \<and> Symbol a = ''BTC'' \<and> tickers s = [a]
        \<longrightarrow> findTicker uni s ''bitcoin'' = (a, True)
          \<and> findTicker uni s ''BTC'' = (a, True)
          \<and> findTicker uni s ''btc'' = (a, True)
          \<and> findTicker uni s ''bit'' = (nullTicker, False))"
proof (intro conjI allI impI)
  fix i
  assume "i < length (tickers s) \<and> matchesQuery uni (tickers s ! i) q \<and>
        (\<forall>j<i. \<not> matchesQuery uni (tickers s ! j) q)"
  then show "findTicker uni s q = (tickers s ! i, True)"
    unfolding findTicker_def by (intro findTicker_loop_first) auto
next
  assume "\<forall>a\<in>set (tickers s). \<not> matchesQuery uni a q"
  then show "findTicker uni s q = (nullTicker, False)"
    unfolding findTicker_def by (rule findTicker_loop_none)
next
  assume "asciiOnly x \<and> asciiOnly q"
  then show "EqualFold uni x q = (map toLowerASCII x = map toLowerASCII q)"
    by (simp add: EqualFold_ascii)
next
  assume h: "Name a = ''Bitcoin'' \<and> Symbol a = ''BTC'' \<and> tickers s = [a]"
  then show "findTicker uni s ''bitcoin'' = (a, True)"
    by (simp add: findTicker_def asciiFoldEq_def)
  from h show "findTicker uni s ''BTC'' = (a, True)"
    by (simp add: findTicker_def asciiFoldEq_def)
  from h show "findTicker uni s ''btc'' = (a, True)"
    by (simp add: findTicker_def asciiFoldEq_def)
  from h show "findTicker uni s ''bit'' = (nullTicker, False)"
    by (simp add: findTicker_def asciiFoldEq_def)
qed

theorem findTicker_first_case_insensitive_match_witness:
  "findTicker (\<lambda>a b. False) twoAssets ''btc'' = (bitcoin, True)
   \<and> findTicker (\<lambda>a b. False) twoAssets ''doge'' = (nullTicker, False)
   \<and> EqualFold (\<lambda>a b. False) ''Ethereum'' ''eThErEuM''
   \<and> findTicker (\<lambda>a b. False) (twoAssets\<lparr>tickers := [bitcoin]\<rparr>) ''bit'' = (nullTicker, False)
   \<and> findTicker (\<lambda>a b. False) (twoAssets\<lparr>tickers := [bitcoin]\<rparr>) ''BTC'' = (bitcoin, True)"
proof -
  note T = findTicker_first_case_insensitive_match
  have m1: "matchesQuery (\<lambda>a b. False) bitcoin ''btc''"
    by (simp add: matchesQuery_def bitcoin_fields asciiFoldEq_def)
  have m0: "\<not> matchesQuery (\<lambda>a b. False) ethereum ''btc''"
    by (simp add: matchesQuery_def ethereum_fields asciiFoldEq_def)
  have n0: "\<not> matchesQuery (\<lambda>a b. False) ethereum ''doge''"
    by (simp add: matchesQuery_def ethereum_fields asciiFoldEq_def)
  have n1: "\<not> matchesQuery (\<lambda>a b. False) bitcoin ''doge''"
    by (simp add: matchesQuery_def bitcoin_fields asciiFoldEq_def)
  have a: "findTicker (\<lambda>a b. False) twoAssets ''btc'' = (bitcoin, True)"
    using T [of twoAssets "\<lambda>a b. False" "''btc''" "[]" bitcoin, THEN conjunct1, rule_format, of 1]
      m0 m1 by (simp add: twoAssets_def)
  have b: "findTicker (\<lambda>a b. False) twoAssets ''doge'' = (nullTicker, False)"
    using T [of twoAssets "\<lambda>a b. False" "''doge''" "[]" bitcoin, THEN conjunct2, THEN conjunct1]
      n0 n1 by (simp add: twoAssets_def)
  have lo: "map toLowerASCII ''Ethereum'' = map toLowerASCII ''eThErEuM''"
    by code_simp
  have asc: "asciiOnly ''Ethereum''" "asciiOnly ''eThErEuM''"
    by (simp_all add: asciiOnly_def)
  have c: "EqualFold (\<lambda>a b. False) ''Ethereum'' ''eThErEuM''"
    using T [of twoAssets "\<lambda>a b. False" "''eThErEuM''" "''Ethereum''" bitcoin,
        THEN conjunct2, THEN conjunct2, THEN conjunct1] lo asc
    by blast
  have d: "findTicker (\<lambda>a b. False) (twoAssets\<lparr>tickers := [bitcoin]\<rparr>) ''bit'' = (nullTicker, False)
     \<and> findTicker (\<lambda>a b. False) (twoAssets\<lparr>tickers := [bitcoin]\<rparr>) ''BTC'' = (bitcoin, True)"
    using T [of "twoAssets\<lparr>tickers := [bitcoin]\<rparr>" "\<lambda>a b. False" "''x''" "''x''" bitcoin,
        THEN conjunct2, THEN conjunct2, THEN conjunct2]
    by (simp add: bitcoin_fields)
  from a b c d show ?thesis by simp
qed

subsection \<open>C2: an empty list is never installed\<close>


text \<open>
  Claim C2. For every fetched asset list \<open>A\<close> (a list request answered with status 200
  and a body that decodes to \<open>A\<close>), \<open>loadTickers\<close> installs \<open>A\<close> as the snapshot if and
  only if \<open>A\<close> is not empty; when \<open>A\<close> is empty the state is left as it was. A refresh
  that fetches the empty list after one that fetched \<open>A\<close> leaves what the first refresh
  left, which is \<open>A\<close> itself when \<open>A\<close> is not empty.
\<close>

theorem loadTickers_installs_iff_nonempty:
  "http tickerListEndpoint = Response 200 (Inr A) \<Longrightarrow>
   snd (loadTickers http s) = Inr (if 0 < length A then s\<lparr>tickers := A\<rparr> else s)
   \<and> (A = [] \<longrightarrow> loadTickers http s = ([Get tickerListEndpoint], Inr s))
   \<and> (A \<noteq> [] \<longrightarrow>
        (\<exists>effs s'. loadTickers http s = (effs, Inr s') \<and> tickers s' = A \<and>
           lastMessages s' = lastMessages s))
   \<and> (http' tickerListEndpoint = Response 200 (Inr []) \<longrightarrow>
        snd (run lib [Tick http, Tick http'] (Running s)) = snd (step lib (Tick http) (Running s)))
   \<and> (A \<noteq> [] \<and> http' tickerListEndpoint = Response 200 (Inr []) \<longrightarrow>
        snd (run lib [Tick http, Tick http'] (Running s)) = Running (s\<lparr>tickers := A\<rparr>))"
  by (simp add: loadTickers_def)

theorem loadTickers_installs_iff_nonempty_witness:
  "snd (loadTickers goodServer (twoAssets\<lparr>tickers := [bitcoin]\<rparr>)) = Inr twoAssets
   \<and> loadTickers emptyServer twoAssets = ([Get tickerListEndpoint], Inr twoAssets)
   \<and> snd (run intLib [Tick goodServer, Tick emptyServer] (Running (twoAssets\<lparr>tickers := [bitcoin]\<rparr>)))
       = Running twoAssets"
proof -
  have g: "goodServer tickerListEndpoint = Response 200 (Inr [ethereum, bitcoin])"
    by (simp add: goodServer_def tickerListEndpoint_def tickerEndpoint_def)
  have e: "emptyServer tickerListEndpoint = Response 200 (Inr [])"
    by (simp add: emptyServer_def)
  have t: "twoAssets\<lparr>tickers := [bitcoin]\<rparr>\<lparr>tickers := [ethereum, bitcoin]\<rparr> = twoAssets"
    by (simp add: twoAssets_def)
  note A = loadTickers_installs_iff_nonempty
    [of goodServer "[ethereum, bitcoin]" "twoAssets\<lparr>tickers := [bitcoin]\<rparr>" emptyServer intLib, OF g]
  note B = loadTickers_installs_iff_nonempty [of emptyServer "[]" twoAssets emptyServer intLib, OF e]
  have 1: "snd (loadTickers goodServer (twoAssets\<lparr>tickers := [bitcoin]\<rparr>)) = Inr twoAssets"
    using A [THEN conjunct1] t by simp
  have 2: "loadTickers emptyServer twoAssets = ([Get tickerListEndpoint], Inr twoAssets)"
    using B [THEN conjunct2, THEN conjunct1] by simp
  have 3: "snd (run intLib [Tick goodServer, Tick emptyServer]
      (Running (twoAssets\<lparr>tickers := [bitcoin]\<rparr>))) = Running twoAssets"
    using A [THEN conjunct2, THEN conjunct2, THEN conjunct2, THEN conjunct2] e t
    by (simp del: run.simps step.simps)
  from 1 2 3 show ?thesis by blast
qed

subsection \<open>The cooldown test\<close>

lemma Sub_less_rateLimit: "(Sub now t < rateLimit) = (now - t < 30000000000)"
  by (simp add: Sub_def Let_def maxDuration_def minDuration_def rateLimit_def)

lemma rateLimited_iff:
  "rateLimited s c now = (now - lookupTime (lastMessages s) c < 30000000000)"
  by (simp add: rateLimited_def Since_def Sub_less_rateLimit)

lemma messageHandler_rateLimited:
  "rateLimited s (ChannelID m) (nowCheck w) \<Longrightarrow>
   snd (messageHandler lib w m s) = s \<and> \<not> list_ex isRecord (fst (messageHandler lib w m s))"
  by (simp add: messageHandler_def Let_def)

lemma btcCommand_passes: "passesFilters btcCommand"
  by (simp add: passesFilters_def btcCommand_def firstChannel_def channels_def)

subsection \<open>C6: the single-asset fetch\<close>

text \<open>
  Claim C6 as stated lists a non-success HTTP status among the four causes of an error.
  \<open>getTicker\<close> compares the status with \<open>http.StatusOK\<close> alone: a response with the
  success status 201 whose body decodes to exactly one record meets none of the four
  causes, and \<open>getTicker\<close> still returns the error \<open>Bad status code\<close>.
\<close>

theorem created_status_counterexample:
  "successStatus 201
   \<and> createdServer (tickerEndpoint @ ''bitcoin'') = Response 201 (Inr [bitcoinFresh])
   \<and> length [bitcoinFresh] = 1
   \<and> getTicker createdServer ''bitcoin''
       = ([Get (tickerEndpoint @ ''bitcoin''), Log ''Ticker endpoint returned 201''],
          Inl ''Bad status code'')"
  by (simp add: successStatus_def createdServer_def getTicker_def itoa.simps char_of_eq_iff)

text \<open>
  Claim C6, amended. For every asset id, \<open>getTicker\<close> returns an error if and only if
  the request meets a transport error, a status other than 200 (\<open>http.StatusOK\<close>), a
  body that does not decode, or a decoded list whose length is not 1; when it succeeds
  it returns the single record of the response.
\<close>

theorem getTicker_error_iff:
  "(isl (snd (getTicker http ident)) =
      (case http (tickerEndpoint @ ident) of
         TransportError err \<Rightarrow> True
       | Response code body \<Rightarrow>
           code \<noteq> 200 \<or> (case body of Inl err \<Rightarrow> True | Inr t \<Rightarrow> length t \<noteq> 1)))
   \<and> (http (tickerEndpoint @ ident) = TransportError err \<longrightarrow>
        snd (getTicker http ident) = Inl err)
   \<and> (http (tickerEndpoint @ ident) = Response code body \<and> code \<noteq> 200 \<longrightarrow>
        snd (getTicker http ident) = Inl ''Bad status code'')
   \<and> (http (tickerEndpoint @ ident) = Response 200 (Inl err) \<longrightarrow>
        snd (getTicker http ident) = Inl err)
   \<and> (http (tickerEndpoint @ ident) = Response 200 (Inr t) \<and> length t \<noteq> 1 \<longrightarrow>
        snd (getTicker http ident) = Inl ''Bad response'')
   \<and> (http (tickerEndpoint @ ident) = Response 200 (Inr [r]) \<longrightarrow>
        snd (getTicker http ident) = Inr r)"
  by (auto simp add: getTicker_def Let_def split: http_result.splits sum.splits)

theorem getTicker_error_iff_witness:
  "snd (getTicker goodServer ''bitcoin'') = Inr bitcoinFresh
   \<and> snd (getTicker downServer ''bitcoin'') = Inl ''connection refused''
   \<and> snd (getTicker goodServer ''dogecoin'') = Inl ''Bad status code''
   \<and> snd (getTicker emptyServer ''bitcoin'') = Inl ''Bad response''
   \<and> snd (getTicker (\<lambda>u. Response 200 (Inl ''unexpected EOF'')) ''bitcoin'') = Inl ''unexpected EOF''
   \<and> isl (snd (getTicker (\<lambda>u. Response 200 (Inr [bitcoin, bitcoinFresh])) ''bitcoin''))
   \<and> snd (getTicker createdServer ''bitcoin'') = Inl ''Bad status code''"
proof -
  note T = getTicker_error_iff
  have g: "goodServer (tickerEndpoint @ ''bitcoin'') = Response 200 (Inr [bitcoinFresh])"
    by (simp add: goodServer_def)
  have g': "goodServer (tickerEndpoint @ ''dogecoin'') = Response 404 (Inl ''EOF'')"
    by (simp add: goodServer_def tickerEndpoint_def tickerListEndpoint_def)
  have 1: "snd (getTicker goodServer ''bitcoin'') = Inr bitcoinFresh"
    using T [of goodServer "''bitcoin''" "[]" 0 "Inl []" "[]" bitcoinFresh] g by simp
  have 2: "snd (getTicker downServer ''bitcoin'') = Inl ''connection refused''"
    using T [of downServer "''bitcoin''" "''connection refused''" 0 "Inl []" "[]" bitcoinFresh]
    by (simp add: downServer_def)
  have 3: "snd (getTicker goodServer ''dogecoin'') = Inl ''Bad status code''"
    using T [of goodServer "''dogecoin''" "[]" 404 "Inl ''EOF''" "[]" bitcoinFresh] g' by simp
  have 4: "snd (getTicker emptyServer ''bitcoin'') = Inl ''Bad response''"
    using T [of emptyServer "''bitcoin''" "[]" 0 "Inl []" "[]" bitcoinFresh]
    by (simp add: emptyServer_def)
  have 5: "snd (getTicker (\<lambda>u. Response 200 (Inl ''unexpected EOF'')) ''bitcoin'') = Inl ''unexpected EOF''"
    using T [of "\<lambda>u. Response 200 (Inl ''unexpected EOF'')" "''bitcoin''" "''unexpected EOF''" 0 "Inl []" "[]" bitcoinFresh]
    by simp
  have 6: "isl (snd (getTicker (\<lambda>u. Response 200 (Inr [bitcoin, bitcoinFresh])) ''bitcoin''))"
    using T [of "\<lambda>u. Response 200 (Inr [bitcoin, bitcoinFresh])" "''bitcoin''" "[]" 0 "Inl []" "[]" bitcoinFresh]
    by simp
  have 7: "snd (getTicker createdServer ''bitcoin'') = Inl ''Bad status code''"
    using T [of createdServer "''bitcoin''" "[]" 201 "Inr [bitcoinFresh]" "[]" bitcoinFresh]
    by (simp add: createdServer_def)
  from 1 2 3 4 5 6 7 show ?thesis by blast
qed

subsection \<open>C4: the time stamp is stored exactly when resolution succeeds\<close>

lemma isInSlice_iff: "isInSlice s xs = (s \<in> set xs)"
  by (induction xs) auto

lemma getTicker_effs:
  "getTicker http ident = (effs, r) \<Longrightarrow> \<not> list_ex isRecord effs \<and> \<not> list_ex isSend effs"
  by (auto simp add: getTicker_def Let_def split: http_result.splits sum.splits if_splits)

lemma sendTickerMessage_effs:
  "sendTickerMessage lib w t m s = (effs, s') \<Longrightarrow>
   list_ex isRecord effs \<and> list_ex isSend effs \<and>
   last effs = SetLastMessage (ChannelID m) (nowRecord w) \<and>
   s' = s\<lparr>lastMessages := (lastMessages s)(ChannelID m \<mapsto> nowRecord w)\<rparr>"
  by (auto simp add: sendTickerMessage_def Let_def split: option.splits)

lemma messageHandler_dropped:
  "\<not> (passesFilters m \<and> \<not> rateLimited s (ChannelID m) (nowCheck w) \<and>
      resolve (foldUnicode lib) (httpGet w) s (Split (Content m) CHR '' '' ! 1) \<noteq> None) \<Longrightarrow>
   messageHandler lib w m s = (effs, s') \<Longrightarrow>
   s' = s \<and> \<not> list_ex isRecord effs \<and> \<not> list_ex isSend effs"
  unfolding messageHandler_def passesFilters_def resolve_def Let_def
  by (auto split: if_splits prod.splits sum.splits dest: getTicker_effs)

lemma messageHandler_served:
  assumes "passesFilters m" "\<not> rateLimited s (ChannelID m) (nowCheck w)"
    "resolve (foldUnicode lib) (httpGet w) s (Split (Content m) CHR '' '' ! 1) = Some t"
  shows "messageHandler lib w m s =
    (fst (getTicker (httpGet w) (ID (fst (findTicker (foldUnicode lib) s (Split (Content m) CHR '' '' ! 1)))))
       @ fst (sendTickerMessage lib w t m s),
     snd (sendTickerMessage lib w t m s))"
  using assms unfolding messageHandler_def passesFilters_def resolve_def Let_def
  by (auto split: if_splits prod.splits sum.splits)

lemma stamped_simps:
  "tickers stampedState = [ethereum, bitcoin]"
  "lastMessages stampedState = [firstChannel \<mapsto> 100000000000]"
  by (simp_all add: stampedState_def twoAssets_def)

lemma lateWorld_simps:
  "nowCheck lateWorld = 200000000000" "nowRecord lateWorld = 200000000001"
  "httpGet lateWorld = goodServer" "sendEmbed lateWorld = (\<lambda>c e. None)"
  by (simp_all add: lateWorld_def calmWorld_def)

lemma btcCommand_simps:
  "ChannelID btcCommand = firstChannel" "Content btcCommand = ''!c BTC''"
  by (simp_all add: btcCommand_def)

lemma resolve_BTC:
  "tickers s = [ethereum, bitcoin] \<Longrightarrow> resolve (\<lambda>a b. False) goodServer s ''BTC'' = Some bitcoinFresh"
  by (simp add: resolve_def findTicker_def ethereum_fields bitcoin_fields asciiFoldEq_def
      getTicker_def goodServer_def)

lemma resolve_DOGE:
  "tickers s = [ethereum, bitcoin] \<Longrightarrow> resolve (\<lambda>a b. False) http s ''DOGE'' = None"
  by (simp add: resolve_def findTicker_def ethereum_fields bitcoin_fields asciiFoldEq_def)

lemma resolve_down:
  "resolve uni downServer s q = None"
  by (simp add: resolve_def getTicker_def downServer_def split: prod.splits)

lemma late_not_limited: "\<not> rateLimited stampedState firstChannel 200000000000"
  by (simp add: rateLimited_iff lookupTime_def stamped_simps)

text \<open>
  Claim C4. For every event, the handler stores the channel's time stamp exactly when
  the event passes the filters and the cooldown check and resolution (\<open>findTicker\<close>
  followed by \<open>getTicker\<close>) succeeds. The stamp is then the last action of the run and
  is stored also when the send of the embed fails (the failure is only logged). When
  the event is dropped for any reason (allow-list, split, command spelling, cooldown,
  \<open>findTicker\<close> or \<open>getTicker\<close> failing) the state is returned unchanged and nothing is
  sent.
\<close>

theorem cooldown_recorded_iff_resolved:
  "messageHandler lib w m s = (effs, s') \<Longrightarrow>
   (list_ex isRecord effs =
      (passesFilters m \<and> \<not> rateLimited s (ChannelID m) (nowCheck w) \<and>
       resolve (foldUnicode lib) (httpGet w) s (Split (Content m) CHR '' '' ! 1) \<noteq> None))
   \<and> (list_ex isRecord effs \<longrightarrow>
        s' = s\<lparr>lastMessages := (lastMessages s)(ChannelID m \<mapsto> nowRecord w)\<rparr> \<and>
        last effs = SetLastMessage (ChannelID m) (nowRecord w))
   \<and> (\<not> list_ex isRecord effs \<longrightarrow> s' = s \<and> \<not> list_ex isSend effs)
   \<and> (passesFilters m \<and> \<not> rateLimited s (ChannelID m) (nowCheck w) \<and>
       resolve (foldUnicode lib) (httpGet w) s (Split (Content m) CHR '' '' ! 1) = Some t \<and>
       sendEmbed w (ChannelID m) (makeEmbed lib t) = Some err \<longrightarrow>
        list_ex isRecord effs \<and> Log ''error sending message'' \<in> set effs \<and> Log err \<in> set effs)"
proof -
  assume mh: "messageHandler lib w m s = (effs, s')"
  let ?q = "Split (Content m) CHR '' '' ! 1"
  let ?ok = "passesFilters m \<and> \<not> rateLimited s (ChannelID m) (nowCheck w) \<and>
       resolve (foldUnicode lib) (httpGet w) s ?q \<noteq> None"
  have served: "list_ex isRecord effs \<and>
        s' = s\<lparr>lastMessages := (lastMessages s)(ChannelID m \<mapsto> nowRecord w)\<rparr> \<and>
        last effs = SetLastMessage (ChannelID m) (nowRecord w) \<and>
        (sendEmbed w (ChannelID m) (makeEmbed lib u) = Some e \<longrightarrow>
          Log ''error sending message'' \<in> set effs \<and> Log e \<in> set effs)"
    if ok: "passesFilters m" "\<not> rateLimited s (ChannelID m) (nowCheck w)"
      "resolve (foldUnicode lib) (httpGet w) s ?q = Some u" for u e
  proof -
    obtain a b where sm: "sendTickerMessage lib w u m s = (a, b)"
      by (cases "sendTickerMessage lib w u m s")
    from messageHandler_served [OF ok] mh sm
    have effs: "effs = fst (getTicker (httpGet w) (ID (fst (findTicker (foldUnicode lib) s ?q)))) @ a"
      and s': "s' = b" by simp_all
    from sendTickerMessage_effs [OF sm]
    have a: "list_ex isRecord a" "last a = SetLastMessage (ChannelID m) (nowRecord w)"
      "b = s\<lparr>lastMessages := (lastMessages s)(ChannelID m \<mapsto> nowRecord w)\<rparr>"
      by simp_all
    from a(1) have "a \<noteq> []" by auto
    have logs: "Log ''error sending message'' \<in> set a \<and> Log e \<in> set a"
      if "sendEmbed w (ChannelID m) (makeEmbed lib u) = Some e"
      using sm that by (auto simp add: sendTickerMessage_def Let_def)
    from a \<open>a \<noteq> []\<close> logs show ?thesis
      unfolding effs s' by (auto simp add: list_ex_iff)
  qed
  have dropped: "s' = s \<and> \<not> list_ex isRecord effs \<and> \<not> list_ex isSend effs" if "\<not> ?ok"
    using messageHandler_dropped [OF that mh] .
  show ?thesis
  proof (cases ?ok)
    case True
    then obtain t' where "resolve (foldUnicode lib) (httpGet w) s ?q = Some t'"
      by blast
    with True served [of t'] served [of t err] show ?thesis by auto
  next
    case False
    with dropped show ?thesis by auto
  qed
qed

theorem cooldown_recorded_iff_resolved_witness:
  "snd (messageHandler intLib lateWorld btcCommand stampedState)
     = stampedState\<lparr>lastMessages := (lastMessages stampedState)(firstChannel \<mapsto> 200000000001)\<rparr>
   \<and> snd (messageHandler intLib brokenSendWorld btcCommand stampedState)
     = stampedState\<lparr>lastMessages := (lastMessages stampedState)(firstChannel \<mapsto> 200000000001)\<rparr>
   \<and> Log ''HTTP 403 Forbidden'' \<in> set (fst (messageHandler intLib brokenSendWorld btcCommand stampedState))
   \<and> snd (messageHandler intLib lateWorld (btcCommand\<lparr>Content := ''!c DOGE''\<rparr>) stampedState)
     = stampedState
   \<and> snd (messageHandler intLib (lateWorld\<lparr>httpGet := downServer\<rparr>) btcCommand stampedState)
     = stampedState"
proof -
  note T = cooldown_recorded_iff_resolved [OF surjective_pairing]
  have lib: "foldUnicode intLib = (\<lambda>a b. False)" by (simp add: intLib_def)
  have bw: "nowCheck brokenSendWorld = 200000000000" "nowRecord brokenSendWorld = 200000000001"
    "httpGet brokenSendWorld = goodServer"
    "sendEmbed brokenSendWorld = (\<lambda>c e. Some ''HTTP 403 Forbidden'')"
    by (simp_all add: brokenSendWorld_def lateWorld_simps)
  have dp: "passesFilters (btcCommand\<lparr>Content := ''!c DOGE''\<rparr>)"
    by (simp add: passesFilters_def btcCommand_def firstChannel_def channels_def)
  have 1: "snd (messageHandler intLib lateWorld btcCommand stampedState)
     = stampedState\<lparr>lastMessages := (lastMessages stampedState)(firstChannel \<mapsto> 200000000001)\<rparr>"
    using T [of intLib lateWorld btcCommand stampedState bitcoinFresh "[]"]
      btcCommand_passes late_not_limited resolve_BTC [OF stamped_simps(1)]
    by (simp add: lib lateWorld_simps btcCommand_simps)
  have 2: "snd (messageHandler intLib brokenSendWorld btcCommand stampedState)
     = stampedState\<lparr>lastMessages := (lastMessages stampedState)(firstChannel \<mapsto> 200000000001)\<rparr>
     \<and> Log ''HTTP 403 Forbidden'' \<in> set (fst (messageHandler intLib brokenSendWorld btcCommand stampedState))"
    using T [of intLib brokenSendWorld btcCommand stampedState bitcoinFresh "''HTTP 403 Forbidden''"]
      btcCommand_passes late_not_limited resolve_BTC [OF stamped_simps(1)]
    by (simp add: lib bw btcCommand_simps)
  have 3: "snd (messageHandler intLib lateWorld (btcCommand\<lparr>Content := ''!c DOGE''\<rparr>) stampedState)
     = stampedState"
    using T [of intLib lateWorld "btcCommand\<lparr>Content := ''!c DOGE''\<rparr>" stampedState bitcoinFresh "[]"]
      dp resolve_DOGE [OF stamped_simps(1)]
    by (simp add: lib lateWorld_simps btcCommand_simps)
  have 4: "snd (messageHandler intLib (lateWorld\<lparr>httpGet := downServer\<rparr>) btcCommand stampedState)
     = stampedState"
    using T [of intLib "lateWorld\<lparr>httpGet := downServer\<rparr>" btcCommand stampedState bitcoinFresh "[]"]
      resolve_down
    by simp
  from 1 2 3 4 show ?thesis by blast
qed

subsection \<open>C3: the cooldown check\<close>

lemma getTicker_effs_hd:
  "\<exists>rest. fst (getTicker http ident) = Get (tickerEndpoint @ ident) # rest"
  by (simp add: getTicker_def Let_def split: http_result.splits sum.splits)

lemma messageHandler_rate_exit_iff:
  assumes "passesFilters m"
  shows "(messageHandler lib w m s = ([Log ''Rate limited''], s))
    = rateLimited s (ChannelID m) (nowCheck w)"
proof (cases "rateLimited s (ChannelID m) (nowCheck w)")
  case True
  with assms show ?thesis
    by (auto simp add: messageHandler_def passesFilters_def Let_def)
next
  case False
  obtain a found where ft: "findTicker (foldUnicode lib) s (Split (Content m) CHR '' '' ! 1) = (a, found)"
    by (cases "findTicker (foldUnicode lib) s (Split (Content m) CHR '' '' ! 1)")
  obtain rest where hd: "fst (getTicker (httpGet w) (ID a)) = Get (tickerEndpoint @ ID a) # rest"
    using getTicker_effs_hd by blast
  obtain effs r where gt: "getTicker (httpGet w) (ID a) = (effs, r)"
    by (cases "getTicker (httpGet w) (ID a)")
  with hd have effs: "effs = Get (tickerEndpoint @ ID a) # rest" by simp
  have "messageHandler lib w m s \<noteq> ([Log ''Rate limited''], s)"
    using assms False ft gt effs
    by (cases found; cases r)
      (auto simp add: messageHandler_def passesFilters_def Let_def split: prod.splits)
  with False show ?thesis by simp
qed

lemma messageHandler_served_result:
  assumes "passesFilters m" "\<not> rateLimited s (ChannelID m) (nowCheck w)"
    "resolve (foldUnicode lib) (httpGet w) s (Split (Content m) CHR '' '' ! 1) = Some t"
  shows "SendEmbed (ChannelID m) (makeEmbed lib t) \<in> set (fst (messageHandler lib w m s))"
    and "snd (messageHandler lib w m s)
      = s\<lparr>lastMessages := (lastMessages s)(ChannelID m \<mapsto> nowRecord w)\<rparr>"
  by (simp_all add: messageHandler_served [OF assms] sendTickerMessage_def Let_def)

text \<open>
  Claim C3. For a channel whose last served response was recorded at \<open>T0\<close>, with the
  cooldown of 30 seconds, the check lets the event through if and only if at least
  30 seconds (in nanoseconds) have passed since \<open>T0\<close>: it fails at every time strictly
  between \<open>T0\<close> and \<open>T0 + 30s\<close>, and passes at \<open>T0 + 30s\<close> and at every later time. This
  holds of the test \<open>time.Since(lastMessages[c]) < rateLimit\<close> and of the handler that
  runs it: for an event that passes the three filters, the run ends at the exit
  \<open>Rate limited\<close> exactly when fewer than 30 seconds have passed since \<open>T0\<close>, and from
  \<open>T0 + 30s\<close> on it goes on to resolution, sending the embed when resolution succeeds.
  The check stores no time stamp: a run stopped by it returns the state unchanged, with
  the log line \<open>Rate limited\<close> as its only action.
\<close>

theorem cooldown_check_thirty_seconds:
  "lastMessages s c = Some T0 \<Longrightarrow>
   (\<not> rateLimited s c now) = (30000000000 \<le> now - T0)
   \<and> (T0 < now \<and> now < T0 + 30000000000 \<longrightarrow> rateLimited s c now)
   \<and> (T0 + 30000000000 \<le> now \<longrightarrow> \<not> rateLimited s c now)
   \<and> (rateLimited s (ChannelID m) (nowCheck w) \<longrightarrow>
        snd (messageHandler lib w m s) = s \<and>
        \<not> list_ex isRecord (fst (messageHandler lib w m s)))
   \<and> (passesFilters m \<and> rateLimited s (ChannelID m) (nowCheck w) \<longrightarrow>
        messageHandler lib w m s = ([Log ''Rate limited''], s))
   \<and> (passesFilters m \<and> ChannelID m = c \<longrightarrow>
        (messageHandler lib w m s = ([Log ''Rate limited''], s))
          = (nowCheck w - T0 < 30000000000))
   \<and> (passesFilters m \<and> ChannelID m = c \<and> T0 < nowCheck w \<and> nowCheck w < T0 + 30000000000 \<longrightarrow>
        messageHandler lib w m s = ([Log ''Rate limited''], s))
   \<and> (passesFilters m \<and> ChannelID m = c \<and> T0 + 30000000000 \<le> nowCheck w \<longrightarrow>
        messageHandler lib w m s \<noteq> ([Log ''Rate limited''], s))
   \<and> (passesFilters m \<and> ChannelID m = c \<and> T0 + 30000000000 \<le> nowCheck w \<and>
       resolve (foldUnicode lib) (httpGet w) s (Split (Content m) CHR '' '' ! 1) = Some t \<longrightarrow>
        SendEmbed c (makeEmbed lib t) \<in> set (fst (messageHandler lib w m s)) \<and>
        snd (messageHandler lib w m s) = s\<lparr>lastMessages := (lastMessages s)(c \<mapsto> nowRecord w)\<rparr>)"
proof -
  assume h: "lastMessages s c = Some T0"
  have r: "rateLimited s c x = (x - T0 < 30000000000)" for x
    using h by (simp add: rateLimited_iff lookupTime_def)
  have 1: "(\<not> rateLimited s c now) = (30000000000 \<le> now - T0)"
    by (auto simp add: r)
  have 2: "T0 < now \<and> now < T0 + 30000000000 \<longrightarrow> rateLimited s c now"
    by (simp add: r)
  have 3: "T0 + 30000000000 \<le> now \<longrightarrow> \<not> rateLimited s c now"
    by (simp add: r)
  have 4: "rateLimited s (ChannelID m) (nowCheck w) \<longrightarrow>
        snd (messageHandler lib w m s) = s \<and>
        \<not> list_ex isRecord (fst (messageHandler lib w m s))"
    using messageHandler_rateLimited by blast
  have 5: "passesFilters m \<and> rateLimited s (ChannelID m) (nowCheck w) \<longrightarrow>
        messageHandler lib w m s = ([Log ''Rate limited''], s)"
    by (simp add: messageHandler_rate_exit_iff)
  have 6: "passesFilters m \<and> ChannelID m = c \<longrightarrow>
        (messageHandler lib w m s = ([Log ''Rate limited''], s))
          = (nowCheck w - T0 < 30000000000)"
    by (auto simp add: messageHandler_rate_exit_iff r)
  have 7: "passesFilters m \<and> ChannelID m = c \<and> T0 < nowCheck w \<and> nowCheck w < T0 + 30000000000 \<longrightarrow>
        messageHandler lib w m s = ([Log ''Rate limited''], s)"
    by (auto simp add: messageHandler_rate_exit_iff r)
  have 8: "passesFilters m \<and> ChannelID m = c \<and> T0 + 30000000000 \<le> nowCheck w \<longrightarrow>
        messageHandler lib w m s \<noteq> ([Log ''Rate limited''], s)"
    by (auto simp add: messageHandler_rate_exit_iff r)
  have 9: "passesFilters m \<and> ChannelID m = c \<and> T0 + 30000000000 \<le> nowCheck w \<and>
       resolve (foldUnicode lib) (httpGet w) s (Split (Content m) CHR '' '' ! 1) = Some t \<longrightarrow>
        SendEmbed c (makeEmbed lib t) \<in> set (fst (messageHandler lib w m s)) \<and>
        snd (messageHandler lib w m s) = s\<lparr>lastMessages := (lastMessages s)(c \<mapsto> nowRecord w)\<rparr>"
  proof (intro impI)
    assume a: "passesFilters m \<and> ChannelID m = c \<and> T0 + 30000000000 \<le> nowCheck w \<and>
       resolve (foldUnicode lib) (httpGet w) s (Split (Content m) CHR '' '' ! 1) = Some t"
    then have n: "\<not> rateLimited s (ChannelID m) (nowCheck w)" by (simp add: r)
    from a messageHandler_served_result [OF _ n, of lib t]
    show "SendEmbed c (makeEmbed lib t) \<in> set (fst (messageHandler lib w m s)) \<and>
        snd (messageHandler lib w m s) = s\<lparr>lastMessages := (lastMessages s)(c \<mapsto> nowRecord w)\<rparr>"
      by auto
  qed
  from 1 2 3 4 5 6 7 8 9 show ?thesis by blast
qed

theorem cooldown_check_thirty_seconds_witness:
  "rateLimited stampedState firstChannel 100000000001
   \<and> rateLimited stampedState firstChannel 129999999999
   \<and> \<not> rateLimited stampedState firstChannel 130000000000
   \<and> \<not> rateLimited stampedState firstChannel 200000000000
   \<and> messageHandler intLib calmWorld btcCommand stampedState = ([Log ''Rate limited''], stampedState)
   \<and> messageHandler intLib lateWorld btcCommand stampedState \<noteq> ([Log ''Rate limited''], stampedState)
   \<and> SendEmbed firstChannel (makeEmbed intLib bitcoinFresh)
        \<in> set (fst (messageHandler intLib lateWorld btcCommand stampedState))
   \<and> snd (messageHandler intLib lateWorld btcCommand stampedState)
        = stampedState\<lparr>lastMessages := (lastMessages stampedState)(firstChannel \<mapsto> 200000000001)\<rparr>"
proof -
  have h: "lastMessages stampedState firstChannel = Some 100000000000"
    by (simp add: stampedState_def)
  note T = cooldown_check_thirty_seconds [OF h]
  have 1: "rateLimited stampedState firstChannel 100000000001"
    using T [of 100000000001, THEN conjunct1] by simp
  have 2: "rateLimited stampedState firstChannel 129999999999"
    using T [of 129999999999, THEN conjunct2, THEN conjunct1] by simp
  have 3: "\<not> rateLimited stampedState firstChannel 130000000000"
    using T [of 130000000000, THEN conjunct2, THEN conjunct2, THEN conjunct1] by simp
  have 4: "\<not> rateLimited stampedState firstChannel 200000000000"
    using T [of 200000000000, THEN conjunct1] by simp
  have c: "ChannelID btcCommand = firstChannel" "nowCheck calmWorld = 100000000000"
    by (simp_all add: btcCommand_def calmWorld_def)
  have 0: "rateLimited stampedState firstChannel 100000000000"
    using T [of 100000000000, THEN conjunct1] by simp
  have 5: "messageHandler intLib calmWorld btcCommand stampedState = ([Log ''Rate limited''], stampedState)"
    using T [of 0 btcCommand calmWorld intLib, THEN conjunct2, THEN conjunct2, THEN conjunct2,
        THEN conjunct2, THEN conjunct1]
      btcCommand_passes 0 c by simp
  have lib: "foldUnicode intLib = (\<lambda>a b. False)" by (simp add: intLib_def)
  have p8: "passesFilters btcCommand \<and> ChannelID btcCommand = firstChannel \<and>
      100000000000 + 30000000000 \<le> nowCheck lateWorld"
    using btcCommand_passes by (simp add: btcCommand_simps lateWorld_simps)
  have 6: "messageHandler intLib lateWorld btcCommand stampedState \<noteq> ([Log ''Rate limited''], stampedState)"
    using T [of 0 btcCommand lateWorld intLib, THEN conjunct2, THEN conjunct2, THEN conjunct2,
        THEN conjunct2, THEN conjunct2, THEN conjunct2, THEN conjunct2, THEN conjunct1,
        THEN mp, OF p8] .
  have p9: "passesFilters btcCommand \<and> ChannelID btcCommand = firstChannel \<and>
      100000000000 + 30000000000 \<le> nowCheck lateWorld \<and>
      resolve (foldUnicode intLib) (httpGet lateWorld) stampedState
        (Split (Content btcCommand) CHR '' '' ! 1) = Some bitcoinFresh"
    using btcCommand_passes resolve_BTC [OF stamped_simps(1)]
    by (simp add: btcCommand_simps lateWorld_simps lib)
  have 7: "SendEmbed firstChannel (makeEmbed intLib bitcoinFresh)
        \<in> set (fst (messageHandler intLib lateWorld btcCommand stampedState))
     \<and> snd (messageHandler intLib lateWorld btcCommand stampedState)
        = stampedState\<lparr>lastMessages := (lastMessages stampedState)(firstChannel \<mapsto> 200000000001)\<rparr>"
    using T [of 0 btcCommand lateWorld intLib bitcoinFresh, THEN conjunct2, THEN conjunct2,
        THEN conjunct2, THEN conjunct2, THEN conjunct2, THEN conjunct2, THEN conjunct2,
        THEN conjunct2, THEN mp, OF p9]
    by (simp only: lateWorld_simps)
  from 1 2 3 4 5 6 7 show ?thesis by blast
qed

subsection \<open>C5: the handler stops at the first check that fails\<close>

lemma tabCommand_simps:
  "ChannelID tabCommand = firstChannel"
  "Content tabCommand = [CHR ''!'', CHR ''c'', CHR 0x09, CHR ''B'', CHR ''T'', CHR ''C'']"
  by (simp_all add: tabCommand_def)

lemma firstChannel_allowed: "isInSlice firstChannel channels"
  by (simp add: firstChannel_def channels_def)

lemma messageHandler_served_sends:
  assumes "passesFilters m" "\<not> rateLimited s (ChannelID m) (nowCheck w)"
    "resolve (foldUnicode lib) (httpGet w) s (Split (Content m) CHR '' '' ! 1) = Some t"
  shows "list_ex isSend (fst (messageHandler lib w m s))"
    and "list_ex isRecord (fst (messageHandler lib w m s))"
  by (simp_all add: messageHandler_served [OF assms] sendTickerMessage_def Let_def)

text \<open>
  Claim C5 as stated asks for exactly two white-space separated tokens. The handler
  splits at the space character only. The command \<open>!c\<close>, a tab, \<open>BTC\<close> from an
  allow-listed channel has the two white-space separated tokens \<open>!c\<close> and \<open>BTC\<close>, the
  cooldown has elapsed, \<open>findTicker\<close> finds Bitcoin and \<open>getTicker\<close> succeeds: every
  predicate of the claim holds, and yet the handler does nothing, while the same command
  written with a space is answered.
\<close>

theorem whitespace_tokens_counterexample:
  "isInSlice (ChannelID tabCommand) channels
   \<and> whitespaceTokens (Content tabCommand) = [''!c'', ''BTC'']
   \<and> \<not> rateLimited stampedState (ChannelID tabCommand) (nowCheck lateWorld)
   \<and> findTicker (foldUnicode intLib) stampedState ''BTC'' = (bitcoin, True)
   \<and> snd (getTicker (httpGet lateWorld) (ID bitcoin)) = Inr bitcoinFresh
   \<and> messageHandler intLib lateWorld tabCommand stampedState = ([], stampedState)
   \<and> list_ex isSend (fst (messageHandler intLib lateWorld btcCommand stampedState))"
proof -
  have 1: "isInSlice (ChannelID tabCommand) channels"
    by (simp add: tabCommand_simps firstChannel_allowed)
  have 2: "whitespaceTokens (Content tabCommand) = [''!c'', ''BTC'']"
    by (simp add: tabCommand_simps whitespaceTokens_def isSpace_def)
  have 3: "\<not> rateLimited stampedState (ChannelID tabCommand) (nowCheck lateWorld)"
    by (simp add: tabCommand_simps lateWorld_simps late_not_limited)
  have 4: "findTicker (foldUnicode intLib) stampedState ''BTC'' = (bitcoin, True)"
    by (simp add: findTicker_def intLib_def stamped_simps ethereum_fields bitcoin_fields asciiFoldEq_def)
  have 5: "snd (getTicker (httpGet lateWorld) (ID bitcoin)) = Inr bitcoinFresh"
    by (simp add: lateWorld_simps bitcoin_fields getTicker_def goodServer_def)
  have 6: "messageHandler intLib lateWorld tabCommand stampedState = ([], stampedState)"
    by (simp add: messageHandler_def tabCommand_simps firstChannel_allowed)
  have lib: "foldUnicode intLib = (\<lambda>a b. False)" by (simp add: intLib_def)
  have 7: "list_ex isSend (fst (messageHandler intLib lateWorld btcCommand stampedState))"
    using messageHandler_served_sends [of btcCommand stampedState lateWorld intLib bitcoinFresh]
      btcCommand_passes late_not_limited resolve_BTC [OF stamped_simps(1)]
    by (simp add: lib lateWorld_simps btcCommand_simps)
  from 1 2 3 4 5 6 7 show ?thesis by blast
qed

text \<open>
  Claim C5, amended. For every event the handler applies its checks in this order and
  stops at the first that fails: the channel is on the allow-list; the content, split
  at every single space character (a tab or a line feed does not separate, and two
  spaces in a row give an empty piece), has exactly two pieces; the first piece is
  \<open>!c\<close> or \<open>!crypto\<close>; the cooldown has elapsed (otherwise \<open>Rate limited\<close> is logged);
  \<open>findTicker\<close> succeeds; \<open>getTicker\<close> succeeds. Only when all six hold is the embed
  sent and the time stamp stored; in every other case the state is unchanged and nothing
  is sent. In particular an event from a channel that is not allow-listed, or with
  the content \<open>!c\<close>, \<open>!crypto BTC extra\<close> or \<open>!x BTC\<close>, has no effect at all.
\<close>

theorem messageHandler_stops_at_first_failing_check:
  "(\<not> isInSlice (ChannelID m) channels \<longrightarrow> messageHandler lib w m s = ([], s))
   \<and> (length (Split (Content m) CHR '' '') \<noteq> 2 \<longrightarrow> messageHandler lib w m s = ([], s))
   \<and> (Split (Content m) CHR '' '' ! 0 \<noteq> ''!c'' \<and> Split (Content m) CHR '' '' ! 0 \<noteq> ''!crypto''
        \<longrightarrow> messageHandler lib w m s = ([], s))
   \<and> (passesFilters m \<and> rateLimited s (ChannelID m) (nowCheck w)
        \<longrightarrow> messageHandler lib w m s = ([Log ''Rate limited''], s))
   \<and> (passesFilters m \<and> \<not> rateLimited s (ChannelID m) (nowCheck w) \<and>
       \<not> snd (findTicker (foldUnicode lib) s (Split (Content m) CHR '' '' ! 1))
        \<longrightarrow> messageHandler lib w m s = ([], s))
   \<and> (passesFilters m \<and> \<not> rateLimited s (ChannelID m) (nowCheck w) \<and>
       findTicker (foldUnicode lib) s (Split (Content m) CHR '' '' ! 1) = (a, True) \<and>
       getTicker (httpGet w) (ID a) = (effs, Inl err)
        \<longrightarrow> messageHandler lib w m s = (effs, s) \<and>
            \<not> list_ex isSend effs \<and> \<not> list_ex isRecord effs)
   \<and> (passesFilters m \<and> \<not> rateLimited s (ChannelID m) (nowCheck w) \<and>
       findTicker (foldUnicode lib) s (Split (Content m) CHR '' '' ! 1) = (a, True) \<and>
       getTicker (httpGet w) (ID a) = (effs, Inr t)
        \<longrightarrow> messageHandler lib w m s =
              (effs @ fst (sendTickerMessage lib w t m s), snd (sendTickerMessage lib w t m s)) \<and>
            SendEmbed (ChannelID m) (makeEmbed lib t) \<in> set (fst (messageHandler lib w m s)) \<and>
            list_ex isRecord (fst (messageHandler lib w m s)))
   \<and> (ChannelID m \<notin> set channels \<or> Content m = ''!c'' \<or> Content m = ''!crypto BTC extra'' \<or>
       Content m = ''!x BTC''
        \<longrightarrow> messageHandler lib w m s = ([], s))"
proof (intro conjI impI)
  show "messageHandler lib w m s = ([], s)" if "\<not> isInSlice (ChannelID m) channels"
    using that by (simp add: messageHandler_def)
  show "messageHandler lib w m s = ([], s)" if "length (Split (Content m) CHR '' '') \<noteq> 2"
    using that by (simp add: messageHandler_def Let_def)
  show "messageHandler lib w m s = ([], s)"
    if "Split (Content m) CHR '' '' ! 0 \<noteq> ''!c'' \<and> Split (Content m) CHR '' '' ! 0 \<noteq> ''!crypto''"
    using that by (simp add: messageHandler_def Let_def)
  show "messageHandler lib w m s = ([Log ''Rate limited''], s)"
    if "passesFilters m \<and> rateLimited s (ChannelID m) (nowCheck w)"
    using that by (auto simp add: messageHandler_def passesFilters_def Let_def)
  show "messageHandler lib w m s = ([], s)"
    if "passesFilters m \<and> \<not> rateLimited s (ChannelID m) (nowCheck w) \<and>
       \<not> snd (findTicker (foldUnicode lib) s (Split (Content m) CHR '' '' ! 1))"
    using that by (auto simp add: messageHandler_def passesFilters_def Let_def split: prod.splits)
next
  assume h: "passesFilters m \<and> \<not> rateLimited s (ChannelID m) (nowCheck w) \<and>
       findTicker (foldUnicode lib) s (Split (Content m) CHR '' '' ! 1) = (a, True) \<and>
       getTicker (httpGet w) (ID a) = (effs, Inl err)"
  then show "messageHandler lib w m s = (effs, s)"
    by (auto simp add: messageHandler_def passesFilters_def Let_def)
  from h getTicker_effs show "\<not> list_ex isSend effs" "\<not> list_ex isRecord effs"
    by blast+
next
  assume h: "passesFilters m \<and> \<not> rateLimited s (ChannelID m) (nowCheck w) \<and>
       findTicker (foldUnicode lib) s (Split (Content m) CHR '' '' ! 1) = (a, True) \<and>
       getTicker (httpGet w) (ID a) = (effs, Inr t)"
  then show eq: "messageHandler lib w m s =
              (effs @ fst (sendTickerMessage lib w t m s), snd (sendTickerMessage lib w t m s))"
    by (auto simp add: messageHandler_def passesFilters_def Let_def split: prod.splits)
  show "SendEmbed (ChannelID m) (makeEmbed lib t) \<in> set (fst (messageHandler lib w m s))"
    unfolding eq by (simp add: sendTickerMessage_def Let_def)
  show "list_ex isRecord (fst (messageHandler lib w m s))"
    unfolding eq by (simp add: sendTickerMessage_def Let_def)
next
  assume "ChannelID m \<notin> set channels \<or> Content m = ''!c'' \<or> Content m = ''!crypto BTC extra'' \<or>
       Content m = ''!x BTC''"
  then show "messageHandler lib w m s = ([], s)"
    by (auto simp add: messageHandler_def isInSlice_iff Let_def)
qed

theorem messageHandler_stops_at_first_failing_check_witness:
  "messageHandler intLib lateWorld (btcCommand\<lparr>ChannelID := ''1''\<rparr>) stampedState = ([], stampedState)
   \<and> messageHandler intLib lateWorld tabCommand stampedState = ([], stampedState)
   \<and> messageHandler intLib lateWorld (btcCommand\<lparr>Content := ''!c  BTC''\<rparr>) stampedState
       = ([], stampedState)
   \<and> messageHandler intLib lateWorld (btcCommand\<lparr>Content := ''!x BTC''\<rparr>) stampedState
       = ([], stampedState)
   \<and> messageHandler intLib calmWorld btcCommand stampedState = ([Log ''Rate limited''], stampedState)
   \<and> messageHandler intLib lateWorld (btcCommand\<lparr>Content := ''!c DOGE''\<rparr>) stampedState
       = ([], stampedState)
   \<and> messageHandler intLib (lateWorld\<lparr>httpGet := downServer\<rparr>) btcCommand stampedState
       = ([Get (tickerEndpoint @ ''bitcoin''), Log ''connection refused''], stampedState)
   \<and> SendEmbed firstChannel (makeEmbed intLib bitcoinFresh)
       \<in> set (fst (messageHandler intLib lateWorld btcCommand stampedState))"
proof -
  note T = messageHandler_stops_at_first_failing_check
  have lib: "foldUnicode intLib = (\<lambda>a b. False)" by (simp add: intLib_def)
  have dp: "passesFilters (btcCommand\<lparr>Content := ''!c DOGE''\<rparr>)"
    by (simp add: passesFilters_def btcCommand_def firstChannel_def channels_def)
  have ft: "findTicker (\<lambda>a b. False) stampedState ''BTC'' = (bitcoin, True)"
    by (simp add: findTicker_def stamped_simps ethereum_fields bitcoin_fields asciiFoldEq_def)
  have fd: "\<not> snd (findTicker (\<lambda>a b. False) stampedState ''DOGE'')"
    by (simp add: findTicker_def stamped_simps ethereum_fields bitcoin_fields asciiFoldEq_def)
  have early: "rateLimited stampedState firstChannel 100000000000"
    by (simp add: rateLimited_iff lookupTime_def stamped_simps)
  have 1: "messageHandler intLib lateWorld (btcCommand\<lparr>ChannelID := ''1''\<rparr>) stampedState
      = ([], stampedState)"
    using T [where m = "btcCommand\<lparr>ChannelID := ''1''\<rparr>" and lib = intLib and w = lateWorld
        and s = stampedState, THEN conjunct1]
    by (simp add: channels_def)
  have 2: "messageHandler intLib lateWorld tabCommand stampedState = ([], stampedState)"
    using T [where m = tabCommand and lib = intLib and w = lateWorld and s = stampedState,
        THEN conjunct2, THEN conjunct1]
    by (simp add: tabCommand_simps)
  have 3: "messageHandler intLib lateWorld (btcCommand\<lparr>Content := ''!c  BTC''\<rparr>) stampedState
       = ([], stampedState)"
    using T [where m = "btcCommand\<lparr>Content := ''!c  BTC''\<rparr>" and lib = intLib and w = lateWorld
        and s = stampedState, THEN conjunct2, THEN conjunct1]
    by simp
  have 4: "messageHandler intLib lateWorld (btcCommand\<lparr>Content := ''!x BTC''\<rparr>) stampedState
       = ([], stampedState)"
    using T [where m = "btcCommand\<lparr>Content := ''!x BTC''\<rparr>" and lib = intLib and w = lateWorld
        and s = stampedState, THEN conjunct2, THEN conjunct2, THEN conjunct1]
    by simp
  have 5: "messageHandler intLib calmWorld btcCommand stampedState
       = ([Log ''Rate limited''], stampedState)"
    using T [where m = btcCommand and lib = intLib and w = calmWorld and s = stampedState,
        THEN conjunct2, THEN conjunct2, THEN conjunct2, THEN conjunct1]
      btcCommand_passes early
    by (simp add: btcCommand_simps calmWorld_def)
  have 6: "messageHandler intLib lateWorld (btcCommand\<lparr>Content := ''!c DOGE''\<rparr>) stampedState
       = ([], stampedState)"
    using T [where m = "btcCommand\<lparr>Content := ''!c DOGE''\<rparr>" and lib = intLib and w = lateWorld
        and s = stampedState, THEN conjunct2, THEN conjunct2, THEN conjunct2, THEN conjunct2,
        THEN conjunct1]
      dp late_not_limited fd
    by (simp add: lib btcCommand_simps lateWorld_simps)
  have gt: "getTicker downServer ''bitcoin''
      = ([Get (tickerEndpoint @ ''bitcoin''), Log ''connection refused''], Inl ''connection refused'')"
    by (simp add: getTicker_def downServer_def)
  have 7: "messageHandler intLib (lateWorld\<lparr>httpGet := downServer\<rparr>) btcCommand stampedState
       = ([Get (tickerEndpoint @ ''bitcoin''), Log ''connection refused''], stampedState)"
    using T [where m = btcCommand and lib = intLib and w = "lateWorld\<lparr>httpGet := downServer\<rparr>"
        and s = stampedState and a = bitcoin
        and effs = "[Get (tickerEndpoint @ ''bitcoin''), Log ''connection refused'']"
        and err = "''connection refused''",
        THEN conjunct2, THEN conjunct2, THEN conjunct2, THEN conjunct2, THEN conjunct2,
        THEN conjunct1]
      btcCommand_passes late_not_limited ft gt
    by (simp add: lib btcCommand_simps lateWorld_simps bitcoin_fields)
  have gg: "getTicker goodServer ''bitcoin'' = ([Get (tickerEndpoint @ ''bitcoin'')], Inr bitcoinFresh)"
    by (simp add: getTicker_def goodServer_def)
  have prem: "passesFilters btcCommand \<and>
      \<not> rateLimited stampedState (ChannelID btcCommand) (nowCheck lateWorld) \<and>
      findTicker (foldUnicode intLib) stampedState (Split (Content btcCommand) CHR '' '' ! 1)
        = (bitcoin, True) \<and>
      getTicker (httpGet lateWorld) (ID bitcoin)
        = ([Get (tickerEndpoint @ ''bitcoin'')], Inr bitcoinFresh)"
    using btcCommand_passes late_not_limited ft gg
    by (simp add: lib btcCommand_simps lateWorld_simps bitcoin_fields)
  have "SendEmbed (ChannelID btcCommand) (makeEmbed intLib bitcoinFresh)
       \<in> set (fst (messageHandler intLib lateWorld btcCommand stampedState))"
    using T [where m = btcCommand and lib = intLib and w = lateWorld
        and s = stampedState and a = bitcoin
        and effs = "[Get (tickerEndpoint @ ''bitcoin'')]" and t = bitcoinFresh,
        THEN conjunct2, THEN conjunct2, THEN conjunct2, THEN conjunct2, THEN conjunct2,
        THEN conjunct2, THEN conjunct1, THEN mp, OF prem]
    by blast
  then have 8: "SendEmbed firstChannel (makeEmbed intLib bitcoinFresh)
       \<in> set (fst (messageHandler intLib lateWorld btcCommand stampedState))"
    by (simp only: btcCommand_simps)
  from 1 2 3 4 5 6 7 8 show ?thesis by blast
qed

subsection \<open>C7: the time stamps written by init\<close>

lemma init_lastMessages:
  "lastMessages (init clock) =
     [''322882023825997845'' \<mapsto> clock 0, ''229807580367683584'' \<mapsto> clock 1]"
  by (simp add: init_def channels_def)

lemma startState_simps:
  "tickers startState = [ethereum, bitcoin]"
  "lastMessages startState firstChannel = Some 1000000000"
  by (simp_all add: startState_def init_lastMessages firstChannel_def)

text \<open>
  Claim C7 as stated says that the first eligible command after start-up, at any time
  after the start, passes the cooldown check. \<open>init\<close> stores the clock reading of the
  start itself, so the check counts its 30 seconds from the start: a well-formed command
  on an allow-listed channel five seconds after the start is answered with
  \<open>Rate limited\<close> only.
\<close>

theorem first_command_after_start_counterexample:
  "lastMessages (init (\<lambda>i. 1000000000)) firstChannel = Some 1000000000
   \<and> passesFilters btcCommand
   \<and> nowCheck earlyWorld = 6000000000
   \<and> rateLimited startState firstChannel (nowCheck earlyWorld)
   \<and> messageHandler intLib earlyWorld btcCommand startState = ([Log ''Rate limited''], startState)"
proof -
  have 1: "lastMessages (init (\<lambda>i. 1000000000)) firstChannel = Some 1000000000"
    by (simp add: init_lastMessages firstChannel_def)
  have 3: "nowCheck earlyWorld = 6000000000"
    by (simp add: earlyWorld_def)
  have 4: "rateLimited startState firstChannel (nowCheck earlyWorld)"
    by (simp add: 3 rateLimited_iff lookupTime_def startState_simps)
  have 5: "messageHandler intLib earlyWorld btcCommand startState
      = ([Log ''Rate limited''], startState)"
    using btcCommand_passes 4
    by (simp add: messageHandler_def passesFilters_def Let_def btcCommand_simps)
  from 1 btcCommand_passes 3 4 5 show ?thesis by blast
qed

text \<open>
  Claim C7, amended. \<open>init\<close> stores, for every channel of the allow-list and for no
  other key, the clock reading taken for it at process start. As long as that reading
  is the stamp stored for the channel, a command on the channel that passes the three
  filters ends at the exit \<open>Rate limited\<close> exactly when fewer than 30 seconds have
  passed since the reading; from 30 seconds after it on the handler goes on to
  resolution, and sends the embed and stores a new stamp when resolution succeeds.
\<close>

theorem init_stamps_start_time:
  "i < length channels \<Longrightarrow>
   lastMessages (init clock) (channels ! i) = Some (clock i)
   \<and> dom (lastMessages (init clock)) = set channels
   \<and> rateLimited (init clock) (channels ! i) now = (now - clock i < 30000000000)
   \<and> (clock i + 30000000000 \<le> now \<longrightarrow> \<not> rateLimited (init clock) (channels ! i) now)
   \<and> (passesFilters m \<and> ChannelID m = channels ! i \<and>
       lastMessages s (channels ! i) = Some (clock i) \<longrightarrow>
        (messageHandler lib w m s = ([Log ''Rate limited''], s))
          = (nowCheck w < clock i + 30000000000))
   \<and> (passesFilters m \<and> ChannelID m = channels ! i \<and>
       lastMessages s (channels ! i) = Some (clock i) \<and> nowCheck w < clock i + 30000000000 \<longrightarrow>
        messageHandler lib w m s = ([Log ''Rate limited''], s))
   \<and> (passesFilters m \<and> ChannelID m = channels ! i \<and>
       lastMessages s (channels ! i) = Some (clock i) \<and> clock i + 30000000000 \<le> nowCheck w \<longrightarrow>
        messageHandler lib w m s \<noteq> ([Log ''Rate limited''], s))
   \<and> (passesFilters m \<and> ChannelID m = channels ! i \<and>
       lastMessages s (channels ! i) = Some (clock i) \<and> clock i + 30000000000 \<le> nowCheck w \<and>
       resolve (foldUnicode lib) (httpGet w) s (Split (Content m) CHR '' '' ! 1) = Some t \<longrightarrow>
        SendEmbed (channels ! i) (makeEmbed lib t) \<in> set (fst (messageHandler lib w m s)) \<and>
        snd (messageHandler lib w m s)
          = s\<lparr>lastMessages := (lastMessages s)(channels ! i \<mapsto> nowRecord w)\<rparr>)"
proof -
  assume "i < length channels"
  then have i: "i = 0 \<or> i = 1" by (auto simp add: channels_def)
  then have 1: "lastMessages (init clock) (channels ! i) = Some (clock i)"
    by (auto simp add: init_lastMessages channels_def)
  have 2: "dom (lastMessages (init clock)) = set channels"
    by (auto simp add: init_lastMessages channels_def)
  from 1 have 3: "rateLimited (init clock) (channels ! i) now = (now - clock i < 30000000000)"
    by (simp add: rateLimited_iff lookupTime_def)
  then have 4: "clock i + 30000000000 \<le> now \<longrightarrow> \<not> rateLimited (init clock) (channels ! i) now"
    by simp
  have r: "rateLimited s (channels ! i) x = (x < clock i + 30000000000)"
    if "lastMessages s (channels ! i) = Some (clock i)" for x
    using that by (auto simp add: rateLimited_iff lookupTime_def)
  have 5: "passesFilters m \<and> ChannelID m = channels ! i \<and>
       lastMessages s (channels ! i) = Some (clock i) \<longrightarrow>
        (messageHandler lib w m s = ([Log ''Rate limited''], s))
          = (nowCheck w < clock i + 30000000000)"
    by (auto simp add: messageHandler_rate_exit_iff r)
  have 6: "passesFilters m \<and> ChannelID m = channels ! i \<and>
       lastMessages s (channels ! i) = Some (clock i) \<and> nowCheck w < clock i + 30000000000 \<longrightarrow>
        messageHandler lib w m s = ([Log ''Rate limited''], s)"
    by (auto simp add: messageHandler_rate_exit_iff r)
  have 7: "passesFilters m \<and> ChannelID m = channels ! i \<and>
       lastMessages s (channels ! i) = Some (clock i) \<and> clock i + 30000000000 \<le> nowCheck w \<longrightarrow>
        messageHandler lib w m s \<noteq> ([Log ''Rate limited''], s)"
    by (auto simp add: messageHandler_rate_exit_iff r)
  have 8: "passesFilters m \<and> ChannelID m = channels ! i \<and>
       lastMessages s (channels ! i) = Some (clock i) \<and> clock i + 30000000000 \<le> nowCheck w \<and>
       resolve (foldUnicode lib) (httpGet w) s (Split (Content m) CHR '' '' ! 1) = Some t \<longrightarrow>
        SendEmbed (channels ! i) (makeEmbed lib t) \<in> set (fst (messageHandler lib w m s)) \<and>
        snd (messageHandler lib w m s)
          = s\<lparr>lastMessages := (lastMessages s)(channels ! i \<mapsto> nowRecord w)\<rparr>"
  proof (intro impI)
    assume a: "passesFilters m \<and> ChannelID m = channels ! i \<and>
       lastMessages s (channels ! i) = Some (clock i) \<and> clock i + 30000000000 \<le> nowCheck w \<and>
       resolve (foldUnicode lib) (httpGet w) s (Split (Content m) CHR '' '' ! 1) = Some t"
    then have n: "\<not> rateLimited s (ChannelID m) (nowCheck w)" by (simp add: r)
    from a messageHandler_served_result [OF _ n, of lib t]
    show "SendEmbed (channels ! i) (makeEmbed lib t) \<in> set (fst (messageHandler lib w m s)) \<and>
        snd (messageHandler lib w m s)
          = s\<lparr>lastMessages := (lastMessages s)(channels ! i \<mapsto> nowRecord w)\<rparr>"
      by auto
  qed
  from 1 2 3 4 5 6 7 8 show ?thesis by blast
qed

theorem init_stamps_start_time_witness:
  "lastMessages (init (\<lambda>i. 1000000000 + int i)) ''229807580367683584'' = Some 1000000001
   \<and> rateLimited (init (\<lambda>i. 1000000000 + int i)) ''229807580367683584'' 31000000000
   \<and> \<not> rateLimited (init (\<lambda>i. 1000000000 + int i)) ''229807580367683584'' 31000000001
   \<and> messageHandler intLib earlyWorld btcCommand startState = ([Log ''Rate limited''], startState)
   \<and> messageHandler intLib lateWorld btcCommand startState \<noteq> ([Log ''Rate limited''], startState)
   \<and> SendEmbed firstChannel (makeEmbed intLib bitcoinFresh)
        \<in> set (fst (messageHandler intLib lateWorld btcCommand startState))"
proof -
  have c: "channels ! 1 = ''229807580367683584''" "channels ! 0 = firstChannel"
    "(1::nat) < length channels" "(0::nat) < length channels"
    "channels ! Suc 0 = ''229807580367683584''"
    by (simp_all add: channels_def firstChannel_def)
  note T = init_stamps_start_time [OF c(3), of "\<lambda>i. 1000000000 + int i"]
  note U = init_stamps_start_time [OF c(4), of "\<lambda>i. 1000000000"]
  have 1: "lastMessages (init (\<lambda>i. 1000000000 + int i)) ''229807580367683584'' = Some 1000000001"
    using T [of 0, THEN conjunct1] by (simp add: c)
  have 2: "rateLimited (init (\<lambda>i. 1000000000 + int i)) ''229807580367683584'' 31000000000"
    using T [of 31000000000, THEN conjunct2, THEN conjunct2, THEN conjunct1] by (simp add: c)
  have 3: "\<not> rateLimited (init (\<lambda>i. 1000000000 + int i)) ''229807580367683584'' 31000000001"
    using T [of 31000000001, THEN conjunct2, THEN conjunct2, THEN conjunct2, THEN conjunct1]
    by (simp add: c)
  have lib: "foldUnicode intLib = (\<lambda>a b. False)" by (simp add: intLib_def)
  have e: "nowCheck earlyWorld = 6000000000" by (simp add: earlyWorld_def)
  have p6: "passesFilters btcCommand \<and> ChannelID btcCommand = channels ! 0 \<and>
      lastMessages startState (channels ! 0) = Some 1000000000 \<and>
      nowCheck earlyWorld < 1000000000 + 30000000000"
    using btcCommand_passes by (simp add: c btcCommand_simps startState_simps e)
  have 4: "messageHandler intLib earlyWorld btcCommand startState
      = ([Log ''Rate limited''], startState)"
    using U [of 0 btcCommand startState intLib earlyWorld, THEN conjunct2, THEN conjunct2,
        THEN conjunct2, THEN conjunct2, THEN conjunct2, THEN conjunct1, THEN mp, OF p6] .
  have p7: "passesFilters btcCommand \<and> ChannelID btcCommand = channels ! 0 \<and>
      lastMessages startState (channels ! 0) = Some 1000000000 \<and>
      1000000000 + 30000000000 \<le> nowCheck lateWorld"
    using btcCommand_passes by (simp add: c btcCommand_simps startState_simps lateWorld_simps)
  have 5: "messageHandler intLib lateWorld btcCommand startState
      \<noteq> ([Log ''Rate limited''], startState)"
    using U [of 0 btcCommand startState intLib lateWorld, THEN conjunct2, THEN conjunct2,
        THEN conjunct2, THEN conjunct2, THEN conjunct2, THEN conjunct2, THEN conjunct1,
        THEN mp, OF p7] .
  have p8: "passesFilters btcCommand \<and> ChannelID btcCommand = channels ! 0 \<and>
      lastMessages startState (channels ! 0) = Some 1000000000 \<and>
      1000000000 + 30000000000 \<le> nowCheck lateWorld \<and>
      resolve (foldUnicode intLib) (httpGet lateWorld) startState
        (Split (Content btcCommand) CHR '' '' ! 1) = Some bitcoinFresh"
    using btcCommand_passes resolve_BTC [OF startState_simps(1)]
    by (simp add: c btcCommand_simps startState_simps lateWorld_simps lib)
  have 6: "SendEmbed firstChannel (makeEmbed intLib bitcoinFresh)
        \<in> set (fst (messageHandler intLib lateWorld btcCommand startState))"
    using U [of 0 btcCommand startState intLib lateWorld bitcoinFresh, THEN conjunct2,
        THEN conjunct2, THEN conjunct2, THEN conjunct2, THEN conjunct2, THEN conjunct2,
        THEN conjunct2, THEN mp, OF p8]
    by (simp only: c)
  from 1 2 3 4 5 6 show ?thesis by blast
qed

subsection \<open>C8: a periodic refresh that fails\<close>




subsection \<open>C9: the Market Cap field\<close>

lemma bitcoinFresh_simps:
  "ID bitcoinFresh = ''bitcoin''" "Name bitcoinFresh = ''Bitcoin''" "Symbol bitcoinFresh = ''BTC''"
  "Rank bitcoinFresh = ''1''" "PriceUSD bitcoinFresh = ''50000''" "PriceBTC bitcoinFresh = ''1''"
  "MarketCap bitcoinFresh = ''950000000000''" "Change1H bitcoinFresh = ''1''"
  "Change24H bitcoinFresh = ''2''" "Change7D bitcoinFresh = ''-3''"
  "LastUpdated bitcoinFresh = ''1513293892''"
  by (simp_all add: bitcoinFresh_def)

lemma ParseInt_examples:
  "ParseInt ''950000000000'' = Some 950000000000"
  "ParseInt ''1513293892'' = Some 1513293892"
  "ParseInt ''1'' = Some 1" "ParseInt ''2'' = Some 2" "ParseInt ''-3'' = Some (- 3)"
  "ParseInt [] = None" "ParseInt ''n/a'' = None"
  by (simp_all add: ParseInt_def isDigit_def)

lemma Comma_example: "Comma intLib 1513293892 = ''1,513,293,892''"
  by (simp add: intLib_def commaNat.simps itoa.simps char_of_eq_iff)

lemma Format_examples:
  "FormatFloat2 intLib 1 = ''1.00''" "FormatFloat2 intLib 2 = ''2.00''"
  "FormatFloat2 intLib (- 3) = ''-3.00''"
  by (simp_all add: intLib_def itoa.simps char_of_eq_iff)

lemma makeEmbed_Fields:
  "Fields (makeEmbed lib t) =
     [\<lparr>FieldName = ''Coin Market Cap Rank'', FieldValue = ''#'' @ Rank t, FieldInline = False\<rparr>,
      \<lparr>FieldName = ''Price USD'', FieldValue = ''$'' @ PriceUSD t, FieldInline = True\<rparr>,
      \<lparr>FieldName = ''Price BTC'', FieldValue = PriceBTC t @ '' BTC'', FieldInline = True\<rparr>]
     @ (case ParseInt (LastUpdated t) of
          Some parsedCap \<Rightarrow>
            [\<lparr>FieldName = ''Market Cap'', FieldValue = ''$'' @ Comma lib parsedCap,
              FieldInline = False\<rparr>]
        | None \<Rightarrow> [])
     @ percentField lib (Change1H t) @ percentField lib (Change24H t)
     @ percentField lib (Change7D t)"
  by (cases "ParseInt (LastUpdated t)"; cases "ParseFloat lib (Change1H t)";
      cases "ParseFloat lib (Change24H t)"; cases "ParseFloat lib (Change7D t)")
    (simp_all add: makeEmbed_def Let_def percentField_def)

lemma percentField_label:
  "f \<in> set (percentField lib src) \<Longrightarrow> FieldName f = ''Percent Change 1 hour''"
  by (auto simp add: percentField_def split: option.splits)

text \<open>
  Claim C9 says that the field \<open>Market Cap\<close> is present if and only if the market
  capitalisation string parses as a number, and that its value comes from that string.
  \<open>makeEmbed\<close> names the parsed value \<open>parsedCap\<close> and labels the field \<open>Market Cap\<close>,
  but the string it parses is \<open>t.LastUpdated\<close>: the field is present exactly when the
  time stamp parses. For a record with market capitalisation 950000000000 and time stamp
  1513293892 the field shows the time stamp; with an empty time stamp the field is
  missing although the capitalisation parses; with the capitalisation \<open>n/a\<close> the field is
  there although the capitalisation does not parse.
\<close>

theorem makeEmbed_market_cap_reads_LastUpdated:
  "list_ex (\<lambda>f. FieldName f = ''Market Cap'') (Fields (makeEmbed lib t))
     = (ParseInt (LastUpdated t) \<noteq> None)
   \<and> ParseInt (MarketCap bitcoinFresh) = Some 950000000000
   \<and> Fields (makeEmbed intLib bitcoinFresh) ! 3
       = \<lparr>FieldName = ''Market Cap'', FieldValue = ''$1,513,293,892'', FieldInline = False\<rparr>
   \<and> ParseInt (MarketCap (bitcoinFresh\<lparr>LastUpdated := []\<rparr>)) = Some 950000000000
   \<and> \<not> list_ex (\<lambda>f. FieldName f = ''Market Cap'')
         (Fields (makeEmbed intLib (bitcoinFresh\<lparr>LastUpdated := []\<rparr>)))
   \<and> ParseInt (MarketCap (bitcoinFresh\<lparr>MarketCap := ''n/a''\<rparr>)) = None
   \<and> list_ex (\<lambda>f. FieldName f = ''Market Cap'')
         (Fields (makeEmbed intLib (bitcoinFresh\<lparr>MarketCap := ''n/a''\<rparr>)))"
proof -
  have p: "ParseFloat intLib = ParseInt" by (simp add: intLib_def)
  have 1: "Fields (makeEmbed intLib bitcoinFresh) ! 3
       = \<lparr>FieldName = ''Market Cap'', FieldValue = ''$1,513,293,892'', FieldInline = False\<rparr>"
    by (simp add: makeEmbed_def Let_def bitcoinFresh_simps ParseInt_examples p Comma_example)
  have 2: "\<not> list_ex (\<lambda>f. FieldName f = ''Market Cap'')
         (Fields (makeEmbed intLib (bitcoinFresh\<lparr>LastUpdated := []\<rparr>)))"
    by (simp add: makeEmbed_def Let_def bitcoinFresh_simps ParseInt_examples p)
  have 3: "list_ex (\<lambda>f. FieldName f = ''Market Cap'')
         (Fields (makeEmbed intLib (bitcoinFresh\<lparr>MarketCap := ''n/a''\<rparr>)))"
    by (simp add: makeEmbed_def Let_def bitcoinFresh_simps ParseInt_examples p)
  have 0: "list_ex (\<lambda>f. FieldName f = ''Market Cap'') (Fields (makeEmbed lib t))
     = (ParseInt (LastUpdated t) \<noteq> None)"
    by (cases "ParseInt (LastUpdated t)")
      (auto simp add: makeEmbed_Fields list_ex_iff dest: percentField_label)
  from 0 1 2 3 show ?thesis
    by (simp add: bitcoinFresh_simps ParseInt_examples)
qed

subsection \<open>C10: the labels of the percent-change fields\<close>

text \<open>
  Claim C10. After the rank, the two prices and the optional \<open>Market Cap\<close> field, the
  fields of the embed are those of the 1-hour, the 24-hour and the 7-day change, in this
  order, each present exactly when its source string parses as a float, and each with
  the same label \<open>Percent Change 1 hour\<close>; no field of the embed carries a label of the
  24-hour or the 7-day period.
\<close>

theorem percent_change_fields_share_one_label:
  "drop (if ParseInt (LastUpdated t) = None then 3 else 4) (Fields (makeEmbed lib t))
     = percentField lib (Change1H t) @ percentField lib (Change24H t) @ percentField lib (Change7D t)
   \<and> (\<forall>f \<in> set (percentField lib src). FieldName f = ''Percent Change 1 hour'')
   \<and> (length (percentField lib src) = (if ParseFloat lib src = None then 0 else 1))
   \<and> (\<forall>f \<in> set (take (if ParseInt (LastUpdated t) = None then 3 else 4) (Fields (makeEmbed lib t))).
         FieldName f \<noteq> ''Percent Change 1 hour'')
   \<and> (\<forall>f \<in> set (Fields (makeEmbed lib t)).
         FieldName f \<in> {''Coin Market Cap Rank'', ''Price USD'', ''Price BTC'', ''Market Cap'',
           ''Percent Change 1 hour''})"
proof (intro conjI)
  show "drop (if ParseInt (LastUpdated t) = None then 3 else 4) (Fields (makeEmbed lib t))
     = percentField lib (Change1H t) @ percentField lib (Change24H t) @ percentField lib (Change7D t)"
    by (cases "ParseInt (LastUpdated t)") (simp_all add: makeEmbed_Fields)
  show "\<forall>f \<in> set (percentField lib src). FieldName f = ''Percent Change 1 hour''"
    by (simp add: percentField_label)
  show "length (percentField lib src) = (if ParseFloat lib src = None then 0 else 1)"
    by (simp add: percentField_def split: option.splits)
  show "\<forall>f \<in> set (take (if ParseInt (LastUpdated t) = None then 3 else 4) (Fields (makeEmbed lib t))).
         FieldName f \<noteq> ''Percent Change 1 hour''"
    by (cases "ParseInt (LastUpdated t)") (simp_all add: makeEmbed_Fields)
  show "\<forall>f \<in> set (Fields (makeEmbed lib t)).
         FieldName f \<in> {''Coin Market Cap Rank'', ''Price USD'', ''Price BTC'', ''Market Cap'',
           ''Percent Change 1 hour''}"
    by (cases "ParseInt (LastUpdated t)") (auto simp add: makeEmbed_Fields dest: percentField_label)
qed

theorem percent_change_fields_share_one_label_witness:
  "drop 4 (Fields (makeEmbed intLib bitcoinFresh))
     = [\<lparr>FieldName = ''Percent Change 1 hour'', FieldValue = ''1.00%'', FieldInline = True\<rparr>,
        \<lparr>FieldName = ''Percent Change 1 hour'', FieldValue = ''2.00%'', FieldInline = True\<rparr>,
        \<lparr>FieldName = ''Percent Change 1 hour'', FieldValue = ''-3.00%'', FieldInline = True\<rparr>]
   \<and> percentField intLib ''n/a'' = []"
proof -
  have p: "ParseFloat intLib = ParseInt" by (simp add: intLib_def)
  have 1: "drop 4 (Fields (makeEmbed intLib bitcoinFresh))
     = [\<lparr>FieldName = ''Percent Change 1 hour'', FieldValue = ''1.00%'', FieldInline = True\<rparr>,
        \<lparr>FieldName = ''Percent Change 1 hour'', FieldValue = ''2.00%'', FieldInline = True\<rparr>,
        \<lparr>FieldName = ''Percent Change 1 hour'', FieldValue = ''-3.00%'', FieldInline = True\<rparr>]"
    using percent_change_fields_share_one_label [of bitcoinFresh intLib "[]", THEN conjunct1]
    by (simp add: percentField_def bitcoinFresh_simps ParseInt_examples p Format_examples)
  have 2: "percentField intLib ''n/a'' = []"
    using percent_change_fields_share_one_label [of bitcoinFresh intLib "''n/a''",
        THEN conjunct2, THEN conjunct2, THEN conjunct1]
    by (simp add: ParseInt_examples p)
  from 1 2 show ?thesis by blast
qed

end
